theory Spec2Isabelle
  imports Complex_Main "HOL-Library.AList" "HOL-Library.Log_Nat"
begin

section \<open>Data model of the realtime service\<close>

text \<open>
  The development embeds the class \<open>AzureAIRealtimeService\<close> of
  \<^verbatim>\<open>azure_realtime_backend.js\<close>. JavaScript numbers that hold money are modelled as
  reals and counters of tokens and requests as integers. The rounding of doubles is
  modelled where an amount computed from costs is cut to an integer or printed: in the
  token estimates of \<open>parseUsageData\<close> and in \<open>calculateTrend\<close>. Sums of money, the
  synthetic hourly series and the product in \<open>calculatePeakHour\<close> are taken over the
  reals. \<open>Date.now()\<close> is an integer number of milliseconds handed in by the caller,
  and \<open>new Date().toISOString()\<close> a string handed in by the caller. Strings are lists
  of 8-bit code units. An exception is a value of type \<open>error\<close> on the left of a sum.
\<close>

datatype error =
    NetworkError
  | HttpError string nat
  | JsonError
  | TypeError
  | UnexpectedError string

text \<open>
  What \<open>await fetch(url)\<close> followed by \<open>response.ok\<close> and \<open>await response.json()\<close>
  can produce: the request rejects, the status is not in the 2xx range, the body is not
  JSON, or a JSON value arrives.
\<close>

datatype 'a response =
    FetchRejects
  | NotOk nat
  | JsonRejects
  | OkBody 'a

record daily_entry =
  date :: string
  cost :: real
  tokens :: int

record usage_record =
  totalCost :: real
  inputTokens :: int
  outputTokens :: int
  requests :: int
  dailyData :: "daily_entry list"

record price_record =
  name :: string
  inputPrice :: "real option"
  outputPrice :: "real option"
  region :: string
  currency :: string
  status :: string
  lastUpdated :: string

text \<open>One bucket of the synthetic series \<open>lastHour\<close> made by \<open>generateHourlyTrend\<close>.\<close>

record hour_bucket =
  bucket_time :: string
  bucket_cost :: real
  bucket_tokens :: real

text \<open>
  \<open>combineModelData\<close> returns \<open>{...pricingModel, usage, trend, lastHour}\<close>: the price
  record extended by three fields.
\<close>

record model_snapshot = price_record +
  usage :: usage_record
  trend :: string
  lastHour :: "hour_bucket list"

text \<open>
  The object returned by \<open>calculateSummary\<close>. Its fields \<open>totalCost\<close> and the like are
  prefixed here, since the usage record already owns these names. \<open>topModel\<close> is
  \<open>None\<close> where the source yields \<open>undefined\<close>.
\<close>

record summary =
  sum_totalCost :: real
  sum_totalTokens :: int
  sum_totalRequests :: int
  avgCostPerRequest :: real
  topModel :: "string option"
  peakHour :: string

text \<open>
  \<open>this.exchangeRates\<close>. The constructor sets only \<open>USD_CZK\<close> and \<open>lastUpdate\<close>, so
  \<open>USD_EUR\<close> is optional.
\<close>

record exchange_rates =
  USD_CZK :: real
  USD_EUR :: "real option"
  rates_lastUpdate :: int

text \<open>
  The object returned by \<open>getDashboardData\<close>. The error branch returns
  \<open>summary: {}\<close>, which is \<open>None\<close> here, and sets the field \<open>error\<close>.
\<close>

record dashboard_data =
  models :: "model_snapshot list"
  summary :: "summary option"
  dd_exchangeRates :: exchange_rates
  dd_region :: string
  dd_lastUpdate :: string
  dd_status :: string
  dd_error :: "string option"

text \<open>
  A WebSocket in \<open>this.subscribers\<close>: whether its \<open>readyState\<close> is \<open>OPEN\<close> and whether its
  \<open>send\<close> throws.
\<close>

record websocket =
  ws_id :: nat
  ws_open :: bool
  ws_send_throws :: bool

text \<open>
  The mutable fields of the service object. \<open>this.cache\<close> is a \<open>Map\<close> that is only
  ever used with the three keys \<open>'azure_token'\<close>, \<open>'pricing'\<close> and \<open>'usage'\<close>; each entry is
  \<open>{data, timestamp}\<close>.
\<close>

record service =
  config_region :: string
  cache_azure_token :: "(string \<times> int) option"
  cache_pricing :: "(price_record list \<times> int) option"
  cache_usage :: "((string \<times> usage_record) list \<times> int) option"
  exchangeRates :: exchange_rates
  lastUpdate :: "dashboard_data option"
  subscribers :: "websocket list"

text \<open>
  The state the constructor leaves: an empty cache, no snapshot, no subscriber, and the
  built-in rate for the koruna stamped with the time of construction.
\<close>

definition new_service :: "string \<Rightarrow> int \<Rightarrow> service" where
  "new_service reg now =
     \<lparr>config_region = reg, cache_azure_token = None, cache_pricing = None, cache_usage = None,
      exchangeRates = \<lparr>USD_CZK = 24.5, USD_EUR = None, rates_lastUpdate = now\<rparr>,
      lastUpdate = None, subscribers = []\<rparr>"

section \<open>Exchange rates\<close>

text \<open>The field \<open>rates\<close> of the body of the exchange-rate API, each currency optional.\<close>

record rates_body =
  CZK :: "real option"
  EUR :: "real option"

text \<open>\<open>x || d\<close> on a number that may be missing: \<open>undefined\<close> and \<open>0\<close> are falsy.\<close>

definition or_default :: "real option \<Rightarrow> real \<Rightarrow> real" where
  "or_default v d = (case v of None \<Rightarrow> d | Some x \<Rightarrow> if x = 0 then d else x)"

text \<open>
  The body of the \<open>try\<close> block of \<open>fetchExchangeRates\<close>. The response carries
  \<open>data.rates\<close>, or \<open>None\<close> when the body has no such field, where \<open>data.rates.CZK\<close>
  throws a \<open>TypeError\<close>.
\<close>

definition fetchExchangeRates_try ::
  "int \<Rightarrow> rates_body option response \<Rightarrow> service \<Rightarrow> error + (service \<times> exchange_rates)" where
  "fetchExchangeRates_try now resp s =
     (case resp of
        FetchRejects \<Rightarrow> Inl NetworkError
      | NotOk code \<Rightarrow> Inl (HttpError ''Exchange rate API error'' code)
      | JsonRejects \<Rightarrow> Inl JsonError
      | OkBody None \<Rightarrow> Inl TypeError
      | OkBody (Some r) \<Rightarrow>
          (let new_rates = \<lparr>USD_CZK = or_default (CZK r) 24.5,
                            USD_EUR = Some (or_default (EUR r) 0.85),
                            rates_lastUpdate = now\<rparr>
           in Inr (s\<lparr>exchangeRates := new_rates\<rparr>, new_rates)))"

text \<open>The \<open>catch\<close> block returns \<open>this.exchangeRates\<close> and changes nothing.\<close>

definition fetchExchangeRates ::
  "int \<Rightarrow> rates_body option response \<Rightarrow> service \<Rightarrow> service \<times> exchange_rates" where
  "fetchExchangeRates now resp s =
     (case fetchExchangeRates_try now resp s of
        Inr r \<Rightarrow> r
      | Inl e \<Rightarrow> (s, exchangeRates s))"

text \<open>The fetch failed: the request threw, or the response was not OK.\<close>

definition fetch_failed :: "'a response \<Rightarrow> bool" where
  "fetch_failed resp = (case resp of FetchRejects \<Rightarrow> True | NotOk c \<Rightarrow> True | _ \<Rightarrow> False)"

section \<open>Model identification\<close>

text \<open>
  \<open>String.prototype.toLowerCase\<close> on one code unit below 256: the ASCII capitals and the
  Latin-1 capitals (all of 192 to 222 but the multiplication sign) move up by 32.
\<close>

definition toLowerCase_char :: "char \<Rightarrow> char" where
  "toLowerCase_char c =
     (let n = (of_char c :: nat)
      in if (65 \<le> n \<and> n \<le> 90) \<or> (192 \<le> n \<and> n \<le> 222 \<and> n \<noteq> 215)
         then char_of (n + 32) else c)"

definition toLowerCase :: "string \<Rightarrow> string" where
  "toLowerCase s = map toLowerCase_char s"

text \<open>
  The patterns carry the flag \<open>i\<close>: two code units match when their canonical (upper
  case) forms agree. Every literal of the patterns is ASCII, and the canonical form of a
  code unit above 127 is never ASCII, so only the ASCII letters are folded.
\<close>

definition canonicalize :: "char \<Rightarrow> char" where
  "canonicalize c =
     (let n = (of_char c :: nat)
      in if 97 \<le> n \<and> n \<le> 122 then char_of (n - 32) else c)"

text \<open>The dot of a regular expression matches every code unit but a line terminator.\<close>

definition line_terminator :: "char \<Rightarrow> bool" where
  "line_terminator c = (c = CHR 0x0A \<or> c = CHR 0x0D)"

text \<open>
  The fragment of regular expressions the table \<open>patterns\<close> is written in: a literal, the
  group \<open>.*\<close>, and a negative lookahead \<open>(?!...)\<close> over a sequence of the first two.
\<close>

datatype atom = Lit string | DotStar

datatype item = Atom atom | NotAhead "atom list"

text \<open>A literal matches at the start of the text.\<close>

fun lit_here :: "string \<Rightarrow> string \<Rightarrow> bool" where
  "lit_here [] s = True"
| "lit_here (p # ps) [] = False"
| "lit_here (p # ps) (c # cs) = (canonicalize p = canonicalize c \<and> lit_here ps cs)"

text \<open>
  Some prefix of the text matches the sequence (a backtracking matcher finds a match
  exactly when one exists).
\<close>

fun atoms_here :: "atom list \<Rightarrow> string \<Rightarrow> bool" where
  "atoms_here [] s = True"
| "atoms_here (Lit l # r) s = (lit_here l s \<and> atoms_here r (drop (length l) s))"
| "atoms_here (DotStar # r) [] = atoms_here r []"
| "atoms_here (DotStar # r) (c # cs) =
     (atoms_here r (c # cs) \<or> (\<not> line_terminator c \<and> atoms_here (DotStar # r) cs))"

fun matches_here :: "item list \<Rightarrow> string \<Rightarrow> bool" where
  "matches_here [] s = True"
| "matches_here (Atom (Lit l) # r) s = (lit_here l s \<and> matches_here r (drop (length l) s))"
| "matches_here (Atom DotStar # r) [] = matches_here r []"
| "matches_here (Atom DotStar # r) (c # cs) =
     (matches_here r (c # cs) \<or> (\<not> line_terminator c \<and> matches_here (Atom DotStar # r) cs))"
| "matches_here (NotAhead q # r) s = (\<not> atoms_here q s \<and> matches_here r s)"

text \<open>The suffixes of a text, longest first: the positions a match may start at.\<close>

fun tails :: "'a list \<Rightarrow> 'a list list" where
  "tails [] = [[]]"
| "tails (x # xs) = (x # xs) # tails xs"

text \<open>\<open>pattern.test(text)\<close>: the pattern matches somewhere in the text.\<close>

definition test :: "item list \<Rightarrow> string \<Rightarrow> bool" where
  "test p s = list_ex (matches_here p) (tails s)"

datatype price_type = Input | Output

text \<open>\<open>/M.*D/i\<close>, \<open>/M(?!-mini).*D/i\<close>, \<open>/M.*turbo.*D/i\<close> and \<open>/M(?!.*turbo)(?!o).*D/i\<close>.\<close>

definition rx_plain :: "string \<Rightarrow> string \<Rightarrow> item list" where
  "rx_plain m d = [Atom (Lit m), Atom DotStar, Atom (Lit d)]"

definition rx_not_mini :: "string \<Rightarrow> string \<Rightarrow> item list" where
  "rx_not_mini m d = [Atom (Lit m), NotAhead [Lit ''-mini''], Atom DotStar, Atom (Lit d)]"

definition rx_turbo :: "string \<Rightarrow> string \<Rightarrow> item list" where
  "rx_turbo m d = [Atom (Lit m), Atom DotStar, Atom (Lit ''turbo''), Atom DotStar, Atom (Lit d)]"

definition rx_not_turbo :: "string \<Rightarrow> string \<Rightarrow> item list" where
  "rx_not_turbo m d =
     [Atom (Lit m), NotAhead [DotStar, Lit ''turbo''], NotAhead [Lit ''o''],
      Atom DotStar, Atom (Lit d)]"

text \<open>The table \<open>patterns\<close> of \<open>extractModelFromMeter\<close>, in its order.\<close>

definition patterns :: "(item list \<times> string \<times> price_type) list" where
  "patterns =
     [(rx_plain ''gpt-4o-mini'' ''input'', ''gpt-4o-mini'', Input),
      (rx_plain ''gpt-4o-mini'' ''output'', ''gpt-4o-mini'', Output),
      (rx_not_mini ''gpt-4o'' ''input'', ''gpt-4o'', Input),
      (rx_not_mini ''gpt-4o'' ''output'', ''gpt-4o'', Output),
      (rx_turbo ''gpt-4'' ''input'', ''gpt-4-turbo'', Input),
      (rx_turbo ''gpt-4'' ''output'', ''gpt-4-turbo'', Output),
      (rx_not_turbo ''gpt-4'' ''input'', ''gpt-4'', Input),
      (rx_not_turbo ''gpt-4'' ''output'', ''gpt-4'', Output),
      (rx_turbo ''gpt-35'' ''input'', ''gpt-3.5-turbo'', Input),
      (rx_turbo ''gpt-35'' ''output'', ''gpt-3.5-turbo'', Output)]"

text \<open>The loop over the table: the first pattern that matches decides, else \<open>null\<close>.\<close>

fun first_match ::
  "(item list \<times> string \<times> price_type) list \<Rightarrow> string \<Rightarrow> (string \<times> price_type) option" where
  "first_match [] s = None"
| "first_match ((p, m, t) # rs) s = (if test p s then Some (m, t) else first_match rs s)"

definition searchText :: "string \<Rightarrow> string \<Rightarrow> string" where
  "searchText meterName productName = toLowerCase (meterName @ '' '' @ productName)"

definition extractModelFromMeter :: "string \<Rightarrow> string \<Rightarrow> (string \<times> price_type) option" where
  "extractModelFromMeter meterName productName =
     first_match patterns (searchText meterName productName)"

text \<open>\<open>s.includes(sub)\<close>: the exact substring test.\<close>

fun starts_with :: "string \<Rightarrow> string \<Rightarrow> bool" where
  "starts_with [] s = True"
| "starts_with (p # ps) [] = False"
| "starts_with (p # ps) (c # cs) = (p = c \<and> starts_with ps cs)"

definition js_includes :: "string \<Rightarrow> string \<Rightarrow> bool" where
  "js_includes s sub = list_ex (starts_with sub) (tails s)"

text \<open>
  \<open>extractModelFromMeterName\<close>. An empty meter name is falsy and gives \<open>null\<close> at once.
\<close>

definition extractModelFromMeterName :: "string \<Rightarrow> string option" where
  "extractModelFromMeterName meterName =
     (if meterName = [] then None
      else let meter = toLowerCase meterName
           in if js_includes meter ''gpt-4o-mini'' then Some ''gpt-4o-mini''
              else if js_includes meter ''gpt-4o'' then Some ''gpt-4o''
              else if js_includes meter ''gpt-4-turbo'' \<or> js_includes meter ''gpt-4 turbo''
                   then Some ''gpt-4-turbo''
              else if js_includes meter ''gpt-4'' then Some ''gpt-4''
              else if js_includes meter ''gpt-35-turbo'' \<or> js_includes meter ''gpt-3.5-turbo''
                   then Some ''gpt-3.5-turbo''
              else None)"

section \<open>Parsing the price catalog\<close>

text \<open>
  One entry of \<open>Items\<close> in the body of the retail price API, with the fields the parser
  reads. \<open>retailPrice\<close> is a number.
\<close>

record catalog_item =
  meterName :: string
  productName :: string
  armRegionName :: string
  currencyCode :: string
  retailPrice :: real

text \<open>
  The callback of \<open>forEach\<close> in \<open>parsePricingData\<close>. The \<open>Map\<close> \<open>models\<close> is an
  association list in insertion order; a new key goes to the end, a known key is updated
  in place. \<open>ts\<close> is \<open>new Date().toISOString()\<close>.
\<close>

definition parse_item ::
  "string \<Rightarrow> (string \<times> price_record) list \<Rightarrow> catalog_item \<Rightarrow> (string \<times> price_record) list" where
  "parse_item ts ms it =
     (case extractModelFromMeter (meterName it) (productName it) of
        None \<Rightarrow> ms
      | Some (key, ty) \<Rightarrow>
          (let ms1 = (if map_of ms key \<noteq> None then ms
                      else ms @ [(key, \<lparr>name = key, inputPrice = None, outputPrice = None,
                                         region = armRegionName it, currency = currencyCode it,
                                         status = ''active'', lastUpdated = ts\<rparr>)])
           in AList.map_entry key
                (\<lambda>model. case ty of
                    Input \<Rightarrow> model\<lparr>inputPrice := Some (retailPrice it)\<rparr>
                  | Output \<Rightarrow> model\<lparr>outputPrice := Some (retailPrice it)\<rparr>) ms1))"

text \<open>\<open>parsePricingData\<close> on an array \<open>Items\<close>.\<close>

definition parsePricingData_items :: "string \<Rightarrow> catalog_item list \<Rightarrow> price_record list" where
  "parsePricingData_items ts its =
     filter (\<lambda>model. inputPrice model \<noteq> None \<and> outputPrice model \<noteq> None)
       (map snd (foldl (parse_item ts) [] its))"

text \<open>
  The JSON body handed to \<open>parsePricingData\<close>: \<open>null\<close> (reading \<open>rawData.Items\<close> throws),
  an object without \<open>Items\<close> (the optional chain skips the loop), an object whose
  \<open>Items\<close> has no \<open>forEach\<close> (the call throws), or an object with an array.
\<close>

datatype raw_pricing = RawNull | RawNoItems | RawItemsNotArray | RawItems "catalog_item list"

definition parsePricingData :: "string \<Rightarrow> raw_pricing \<Rightarrow> error + price_record list" where
  "parsePricingData ts rawData =
     (case rawData of
        RawNull \<Rightarrow> Inl TypeError
      | RawNoItems \<Rightarrow> Inr []
      | RawItemsNotArray \<Rightarrow> Inl TypeError
      | RawItems its \<Rightarrow> Inr (parsePricingData_items ts its))"

text \<open>The call of \<open>extractModelFromMeter\<close> made for one entry.\<close>

definition classify :: "catalog_item \<Rightarrow> (string \<times> price_type) option" where
  "classify it = extractModelFromMeter (meterName it) (productName it)"

section \<open>Double-precision numbers\<close>

text \<open>
  A JavaScript number is a binary64 double: 53 significant bits, exponents from -1022
  to 1023. The result of an operation on doubles is the exact result rounded to the
  nearest double, to the one with an even significand on a tie. \<open>dbl x\<close> is that
  rounding for a result within the range of doubles; a decimal literal of the source
  such as \<open>0.7\<close> denotes \<open>dbl 0.7\<close>. A result that leaves the range is an infinity,
  which \<open>calculateTrend\<close> models; in \<open>parseUsageData\<close> costs are taken to be doubles
  whose quotients stay within the range, and counters to stay below \<open>2^53\<close>, where
  their sums are exact.
\<close>

definition pow2 :: "int \<Rightarrow> real" where
  "pow2 k = (if 0 \<le> k then 2 ^ nat k else 1 / 2 ^ nat (- k))"

definition round_half_even :: "real \<Rightarrow> int" where
  "round_half_even x =
     (let f = \<lfloor>x\<rfloor>; d = x - real_of_int f
      in if d < 1 / 2 then f else if 1 / 2 < d then f + 1 else if even f then f else f + 1)"

text \<open>The binary exponent \<open>e\<close> of a number other than zero: \<open>2^e \<le> |x| < 2^(e+1)\<close>.\<close>

definition exponent :: "real \<Rightarrow> int" where
  "exponent x =
     (if 1 \<le> \<bar>x\<bar> then bitlen \<lfloor>\<bar>x\<bar>\<rfloor> - 1 else - bitlen (\<lceil>1 / \<bar>x\<bar>\<rceil> - 1))"

definition dbl :: "real \<Rightarrow> real" where
  "dbl x =
     (if x = 0 then 0
      else let ulp = pow2 (max (exponent x) (- 1022) - 52)
           in real_of_int (round_half_even (x / ulp)) * ulp)"

section \<open>Parsing the usage rows\<close>

text \<open>
  One row of the cost query, destructured as
  \<open>[cost, date, currency, meterName, serviceName, quantity]\<close>. The cost is a number, so
  \<open>parseFloat(cost) || 0\<close> is the cost itself.
\<close>

type_synonym usage_row = "real \<times> string \<times> string \<times> string \<times> string \<times> real"

text \<open>The table \<open>avgPricePerToken\<close> with its default \<open>0.00001\<close>.\<close>

definition avgPricePerToken :: "string \<Rightarrow> real" where
  "avgPricePerToken modelName =
     (if modelName = ''gpt-4o'' then dbl 0.000006
      else if modelName = ''gpt-4o-mini'' then dbl 0.000000375
      else if modelName = ''gpt-3.5-turbo'' then dbl 0.000001
      else if modelName = ''gpt-4-turbo'' then dbl 0.00002
      else if modelName = ''gpt-4'' then dbl 0.000045
      else dbl 0.00001)"

text \<open>\<open>Math.floor(parseFloat(cost) / avgPrice)\<close>: the quotient is a double.\<close>

definition estimateTokensFromCost :: "real \<Rightarrow> string \<Rightarrow> int" where
  "estimateTokensFromCost c modelName = \<lfloor>dbl (c / avgPricePerToken modelName)\<rfloor>"

definition zero_usage :: usage_record where
  "zero_usage = \<lparr>totalCost = 0, inputTokens = 0, outputTokens = 0, requests = 0, dailyData = []\<rparr>"

text \<open>
  The callback of \<open>forEach\<close> in \<open>parseUsageData\<close>. The object \<open>usage\<close> is an association
  list; a row whose meter names no model, or whose service is not Cognitive Services, is
  skipped. The products \<open>estimatedTokens * 0.7\<close> and \<open>estimatedTokens * 0.3\<close> and the
  quotient \<open>estimatedTokens / 1000\<close> are doubles before \<open>Math.floor\<close> cuts them.
\<close>

definition parse_row ::
  "(string \<times> usage_record) list \<Rightarrow> usage_row \<Rightarrow> (string \<times> usage_record) list" where
  "parse_row us row =
     (case row of (c, d, cur, meter, serviceName, quantity) \<Rightarrow>
        (case extractModelFromMeterName meter of
           None \<Rightarrow> us
         | Some modelName \<Rightarrow>
             if serviceName = ''Cognitive Services''
             then (let us1 = (if map_of us modelName = None
                              then us @ [(modelName, zero_usage)] else us);
                       estimatedTokens = estimateTokensFromCost c modelName
                   in AList.map_entry modelName
                        (\<lambda>u. u\<lparr>totalCost := totalCost u + c,
                               inputTokens := inputTokens u
                                  + \<lfloor>dbl (real_of_int estimatedTokens * dbl 0.7)\<rfloor>,
                               outputTokens := outputTokens u
                                  + \<lfloor>dbl (real_of_int estimatedTokens * dbl 0.3)\<rfloor>,
                               requests := requests u
                                  + \<lfloor>dbl (real_of_int estimatedTokens / 1000)\<rfloor>,
                               dailyData := dailyData u
                                  @ [\<lparr>date = d, cost = c, tokens = estimatedTokens\<rparr>]\<rparr>) us1)
             else us))"

definition parseUsageData_rows :: "usage_row list \<Rightarrow> (string \<times> usage_record) list" where
  "parseUsageData_rows rows = foldl parse_row [] rows"

text \<open>
  The JSON body handed to \<open>parseUsageData\<close>: \<open>null\<close> (reading \<open>rawData.properties\<close>
  throws), an object without \<open>properties.rows\<close>, or an object with the rows.
\<close>

datatype raw_usage = UsageNull | UsageNoRows | UsageRows "usage_row list"

definition parseUsageData :: "raw_usage \<Rightarrow> error + (string \<times> usage_record) list" where
  "parseUsageData rawData =
     (case rawData of
        UsageNull \<Rightarrow> Inl TypeError
      | UsageNoRows \<Rightarrow> Inr []
      | UsageRows rows \<Rightarrow> Inr (parseUsageData_rows rows))"

section \<open>Fallback data\<close>

text \<open>\<open>getFallbackPricing\<close>, with \<open>this.config.region\<close> and the current time as text.\<close>

definition getFallbackPricing :: "string \<Rightarrow> string \<Rightarrow> price_record list" where
  "getFallbackPricing reg ts =
     [\<lparr>name = ''gpt-4o'', inputPrice = Some 0.0000025, outputPrice = Some 0.00001,
       region = reg, currency = ''USD'', status = ''active'', lastUpdated = ts\<rparr>,
      \<lparr>name = ''gpt-4o-mini'', inputPrice = Some 0.000000150, outputPrice = Some 0.000000600,
       region = reg, currency = ''USD'', status = ''active'', lastUpdated = ts\<rparr>,
      \<lparr>name = ''gpt-3.5-turbo'', inputPrice = Some 0.0000005, outputPrice = Some 0.0000015,
       region = reg, currency = ''USD'', status = ''active'', lastUpdated = ts\<rparr>]"

definition getFallbackUsage :: "(string \<times> usage_record) list" where
  "getFallbackUsage =
     [(''gpt-4o'', \<lparr>totalCost = 15.85, inputTokens = 2450000, outputTokens = 980000,
                    requests = 3420, dailyData = []\<rparr>),
      (''gpt-4o-mini'', \<lparr>totalCost = 3.26, inputTokens = 8950000, outputTokens = 3200000,
                         requests = 15680, dailyData = []\<rparr>),
      (''gpt-3.5-turbo'', \<lparr>totalCost = 15.60, inputTokens = 15600000, outputTokens = 5200000,
                           requests = 28450, dailyData = []\<rparr>)]"

section \<open>The fetchers\<close>

text \<open>
  Within one call every \<open>Date.now()\<close> reads the clock value \<open>now\<close>, and every
  \<open>new Date().toISOString()\<close> the text \<open>ts\<close>.
\<close>

text \<open>
  The \<open>try\<close> block of \<open>fetchRealTimePricing\<close>: it throws, or stores the parsed list
  under \<open>'pricing'\<close> and returns it.
\<close>

definition fetchRealTimePricing_try ::
  "int \<Rightarrow> string \<Rightarrow> raw_pricing response \<Rightarrow> service \<Rightarrow> error + (service \<times> price_record list)" where
  "fetchRealTimePricing_try now ts resp s =
     (case resp of
        FetchRejects \<Rightarrow> Inl NetworkError
      | NotOk code \<Rightarrow> Inl (HttpError ''Pricing API error'' code)
      | JsonRejects \<Rightarrow> Inl JsonError
      | OkBody data \<Rightarrow>
          (case parsePricingData ts data of
             Inl e \<Rightarrow> Inl e
           | Inr parsedModels \<Rightarrow>
               Inr (s\<lparr>cache_pricing := Some (parsedModels, now)\<rparr>, parsedModels)))"

text \<open>The \<open>catch\<close> block returns \<open>this.getFallbackPricing()\<close>.\<close>

definition fetchRealTimePricing ::
  "int \<Rightarrow> string \<Rightarrow> raw_pricing response \<Rightarrow> service \<Rightarrow> service \<times> price_record list" where
  "fetchRealTimePricing now ts resp s =
     (case fetchRealTimePricing_try now ts resp s of
        Inr r \<Rightarrow> r
      | Inl e \<Rightarrow> (s, getFallbackPricing (config_region s) ts))"

text \<open>
  \<open>getAzureAccessToken\<close>. The cached entry is used while it is younger than fifty
  minutes. Otherwise the token endpoint is called; the body carries \<open>access_token\<close>, or
  is \<open>null\<close> (\<open>None\<close>), where reading the field throws. The \<open>catch\<close> block logs and throws
  the error again. The result tells whether the token endpoint was called.
\<close>

definition token_cache_valid :: "int \<Rightarrow> service \<Rightarrow> bool" where
  "token_cache_valid now s =
     (case cache_azure_token s of
        None \<Rightarrow> False
      | Some (d, timestamp) \<Rightarrow> now - timestamp < 50 * 60 * 1000)"

definition getAzureAccessToken ::
  "int \<Rightarrow> string option response \<Rightarrow> service \<Rightarrow> service \<times> bool \<times> (error + string)" where
  "getAzureAccessToken now resp s =
     (case (if token_cache_valid now s then cache_azure_token s else None) of
        Some (d, timestamp) \<Rightarrow> (s, False, Inr d)
      | None \<Rightarrow>
          (case resp of
             FetchRejects \<Rightarrow> (s, True, Inl NetworkError)
           | NotOk code \<Rightarrow> (s, True, Inl (HttpError ''Authentication failed'' code))
           | JsonRejects \<Rightarrow> (s, True, Inl JsonError)
           | OkBody None \<Rightarrow> (s, True, Inl TypeError)
           | OkBody (Some access_token) \<Rightarrow>
               (s\<lparr>cache_azure_token := Some (access_token, now)\<rparr>, True, Inr access_token)))"

text \<open>
  The \<open>try\<close> block of \<open>fetchUsageData\<close>: the token first, then the cost query. The state
  is returned in both cases, since a fresh token stays cached when the query fails.
\<close>

definition fetchUsageData_try ::
  "int \<Rightarrow> string option response \<Rightarrow> raw_usage response \<Rightarrow> service
     \<Rightarrow> service \<times> (error + (string \<times> usage_record) list)" where
  "fetchUsageData_try now token_resp resp s =
     (case getAzureAccessToken now token_resp s of
        (s1, called, Inl e) \<Rightarrow> (s1, Inl e)
      | (s1, called, Inr accessToken) \<Rightarrow>
          (case resp of
             FetchRejects \<Rightarrow> (s1, Inl NetworkError)
           | NotOk code \<Rightarrow> (s1, Inl (HttpError ''Cost Management API error'' code))
           | JsonRejects \<Rightarrow> (s1, Inl JsonError)
           | OkBody data \<Rightarrow>
               (case parseUsageData data of
                  Inl e \<Rightarrow> (s1, Inl e)
                | Inr parsedUsage \<Rightarrow>
                    (s1\<lparr>cache_usage := Some (parsedUsage, now)\<rparr>, Inr parsedUsage))))"

text \<open>The \<open>catch\<close> block returns \<open>this.getFallbackUsage()\<close>.\<close>

definition fetchUsageData ::
  "int \<Rightarrow> string option response \<Rightarrow> raw_usage response \<Rightarrow> service
     \<Rightarrow> service \<times> (string \<times> usage_record) list" where
  "fetchUsageData now token_resp resp s =
     (case fetchUsageData_try now token_resp resp s of
        (s1, Inr parsedUsage) \<Rightarrow> (s1, parsedUsage)
      | (s1, Inl e) \<Rightarrow> (s1, getFallbackUsage))"

section \<open>Trend, hourly series and summary\<close>

text \<open>
  The value of \<open>change\<close> in \<open>calculateTrend\<close>: a double, an infinity or \<open>NaN\<close>. An
  exact result rounds to an infinity when its rounding leaves the range of doubles; a
  division by zero yields an infinity, or \<open>NaN\<close> when the dividend is zero too. The
  divisor is a cost, a double that is never the negative zero, and the factor of
  \<open>js_times\<close> is the positive constant 100.
\<close>

datatype js_number = Finite real | PosInfinity | NegInfinity | NaN

definition js_of :: "real \<Rightarrow> js_number" where
  "js_of x =
     (let r = dbl x
      in if 2 ^ 1024 \<le> \<bar>r\<bar> then (if 0 < r then PosInfinity else NegInfinity)
         else Finite r)"

definition js_divide :: "js_number \<Rightarrow> real \<Rightarrow> js_number" where
  "js_divide a b =
     (case a of
        Finite v \<Rightarrow>
          (if b \<noteq> 0 then js_of (v / b)
           else if 0 < v then PosInfinity
           else if v < 0 then NegInfinity
           else NaN)
      | PosInfinity \<Rightarrow> (if b < 0 then NegInfinity else PosInfinity)
      | NegInfinity \<Rightarrow> (if b < 0 then PosInfinity else NegInfinity)
      | NaN \<Rightarrow> NaN)"

definition js_times :: "js_number \<Rightarrow> real \<Rightarrow> js_number" where
  "js_times x k = (case x of Finite v \<Rightarrow> js_of (v * k) | other \<Rightarrow> other)"

definition js_ge_zero :: "js_number \<Rightarrow> bool" where
  "js_ge_zero x = (case x of Finite v \<Rightarrow> v \<ge> 0 | PosInfinity \<Rightarrow> True | _ \<Rightarrow> False)"

text \<open>Decimal digits of a natural number.\<close>

function digits :: "nat \<Rightarrow> string" where
  "digits n = (if n < 10 then [char_of (48 + n)] else digits (n div 10) @ [char_of (48 + n mod 10)])"
  by pat_completeness auto
termination
  by (relation "measure id") auto

declare digits.simps [simp del]

text \<open>
  \<open>x.toFixed(0)\<close>: the sign, then for a magnitude below \<open>10^21\<close> the nearest integer
  to it, the larger one on a tie. For a magnitude of \<open>10^21\<close> or more the method
  returns what the conversion of a number to a string, a function of the language,
  gives for the magnitude (its exponent form); that function is the argument
  \<open>numberToString\<close>.
\<close>

definition toFixed0 :: "(real \<Rightarrow> string) \<Rightarrow> js_number \<Rightarrow> string" where
  "toFixed0 numberToString x =
     (case x of
        Finite v \<Rightarrow>
          (if v < 0 then ''-'' else [])
          @ (if 10 ^ 21 \<le> \<bar>v\<bar> then numberToString \<bar>v\<bar>
             else digits (nat \<lfloor>\<bar>v\<bar> + 1 / 2\<rfloor>))
      | PosInfinity \<Rightarrow> ''Infinity''
      | NegInfinity \<Rightarrow> ''-Infinity''
      | NaN \<Rightarrow> ''NaN'')"

text \<open>
  \<open>calculateTrend\<close>: \<open>((recent[1].cost - recent[0].cost) / recent[0].cost) * 100\<close>, three
  operations on doubles.
\<close>

definition calculateTrend :: "(real \<Rightarrow> string) \<Rightarrow> daily_entry list \<Rightarrow> string" where
  "calculateTrend numberToString dd =
     (if length dd < 2 then ''+0%''
      else let recent = drop (length dd - 2) dd;
               change = js_times (js_divide (js_of (cost (recent ! 1) - cost (recent ! 0)))
                                            (cost (recent ! 0))) 100
           in (if js_ge_zero change then ''+'' else [])
              @ toFixed0 numberToString change @ ''%'')"

text \<open>
  \<open>generateHourlyTrend\<close>: five buckets, for \<open>i\<close> from 4 down to 0. \<open>draws i\<close> gives the
  time label of bucket \<open>i\<close> and the two values of \<open>Math.random()\<close> drawn for it.
\<close>

definition generateHourlyTrend ::
  "(nat \<Rightarrow> string \<times> real \<times> real) \<Rightarrow> usage_record \<Rightarrow> hour_bucket list" where
  "generateHourlyTrend draws u =
     map (\<lambda>i. case draws i of (timeStr, r1, r2) \<Rightarrow>
            \<lparr>bucket_time = timeStr,
             bucket_cost = totalCost u * (0.15 + r1 * 0.1),
             bucket_tokens = real_of_int (inputTokens u + outputTokens u) * (0.15 + r2 * 0.1)\<rparr>)
         [4, 3, 2, 1, 0]"

text \<open>
  \<open>combineModelData\<close>: one snapshot per price record, with the usage found under its
  name or the zero record. \<open>draws j\<close> are the draws made for the record at position \<open>j\<close>;
  \<open>numberToString\<close> is handed on to \<open>calculateTrend\<close>.
\<close>

definition usage_or_zero :: "(string \<times> usage_record) list \<Rightarrow> string \<Rightarrow> usage_record" where
  "usage_or_zero usageData key =
     (case map_of usageData key of Some u \<Rightarrow> u | None \<Rightarrow> zero_usage)"

definition combine_one ::
  "(real \<Rightarrow> string) \<Rightarrow> (nat \<Rightarrow> string \<times> real \<times> real) \<Rightarrow> (string \<times> usage_record) list
     \<Rightarrow> price_record \<Rightarrow> model_snapshot" where
  "combine_one numberToString draws usageData pricingModel =
     (let u = usage_or_zero usageData (name pricingModel);
          hourlyTrend = generateHourlyTrend draws u;
          tr = calculateTrend numberToString (dailyData u)
      in price_record.extend pricingModel
           (model_snapshot.fields u tr hourlyTrend))"

definition combineModelData ::
  "(real \<Rightarrow> string) \<Rightarrow> (nat \<Rightarrow> nat \<Rightarrow> string \<times> real \<times> real) \<Rightarrow> price_record list
     \<Rightarrow> (string \<times> usage_record) list \<Rightarrow> model_snapshot list" where
  "combineModelData numberToString draws pricingModels usageData =
     map (\<lambda>(j, pricingModel). combine_one numberToString (draws j) usageData pricingModel)
         (enumerate 0 pricingModels)"

text \<open>\<open>calculatePeakHour\<close>: \<open>rnd\<close> is the value of \<open>Math.random()\<close>, in \<open>[0, 1)\<close>.\<close>

definition calculatePeakHour :: "real \<Rightarrow> model_snapshot list \<Rightarrow> string" where
  "calculatePeakHour rnd ms =
     [''14:00'', ''14:15'', ''14:30'', ''14:45'', ''15:00''] ! nat \<lfloor>rnd * 5\<rfloor>"

text \<open>
  \<open>calculateSummary\<close>. \<open>reduce\<close> is a left fold; the fold for \<open>topModel\<close> starts from
  \<open>models[0]\<close>, or from a stub without a name when the list is empty.
\<close>

definition calculateSummary :: "real \<Rightarrow> model_snapshot list \<Rightarrow> summary" where
  "calculateSummary rnd ms =
     (let total_cost = foldl (\<lambda>sum model. sum + totalCost (usage model)) 0 ms;
          total_tokens = foldl (\<lambda>sum model. sum + inputTokens (usage model)
                                                   + outputTokens (usage model)) 0 ms;
          total_requests = foldl (\<lambda>sum model. sum + requests (usage model)) 0 ms
      in \<lparr>sum_totalCost = total_cost,
          sum_totalTokens = total_tokens,
          sum_totalRequests = total_requests,
          avgCostPerRequest = (if total_requests > 0
                               then total_cost / real_of_int total_requests else 0),
          topModel = (case ms of
                        [] \<Rightarrow> None
                      | m0 # rest \<Rightarrow>
                          Some (name (foldl (\<lambda>top model.
                                   if totalCost (usage model) > totalCost (usage top)
                                   then model else top) m0 ms))),
          peakHour = calculatePeakHour rnd ms\<rparr>)"

section \<open>The dashboard snapshot\<close>

text \<open>
  \<open>broadcastToClients\<close>: a socket that is open and whose \<open>send\<close> succeeds receives the
  data and stays; every other socket is deleted from \<open>this.subscribers\<close>. The second
  component lists the deliveries.
\<close>

definition broadcastToClients ::
  "dashboard_data \<Rightarrow> service \<Rightarrow> service \<times> (nat \<times> dashboard_data) list" where
  "broadcastToClients d s =
     (let live = filter (\<lambda>ws. ws_open ws \<and> \<not> ws_send_throws ws) (subscribers s)
      in (s\<lparr>subscribers := live\<rparr>, map (\<lambda>ws. (ws_id ws, d)) live))"

text \<open>
  An exception that no statement of the source raises on purpose: none, one thrown while
  the models are combined and summarised, or one thrown by \<open>JSON.stringify\<close> at the
  start of the broadcast.
\<close>

datatype fault = NoFault | MergeThrows string | BroadcastThrows string

text \<open>
  What one call of \<open>getDashboardData\<close> reads from outside: the clock, the four
  responses, the random draws, the language's conversion of a large number to a string,
  and the fault.
\<close>

record cycle =
  c_now :: int
  c_ts :: string
  c_pricing :: "raw_pricing response"
  c_token :: "string option response"
  c_usage :: "raw_usage response"
  c_rates :: "rates_body option response"
  c_draws :: "nat \<Rightarrow> nat \<Rightarrow> string \<times> real \<times> real"
  c_rnd :: real
  c_toString :: "real \<Rightarrow> string"
  c_fault :: fault

definition message :: "error \<Rightarrow> string" where
  "message e =
     (case e of
        NetworkError \<Rightarrow> ''fetch failed''
      | HttpError what code \<Rightarrow> what
      | JsonError \<Rightarrow> ''invalid json''
      | TypeError \<Rightarrow> ''type error''
      | UnexpectedError msg \<Rightarrow> msg)"

text \<open>
  The \<open>try\<close> block of \<open>getDashboardData\<close>. The three fetchers write disjoint parts of
  the state (\<open>'pricing'\<close>; \<open>'azure_token'\<close> and \<open>'usage'\<close>; \<open>exchangeRates\<close>), so the order
  in which their promises settle does not matter and they are run one after the other.
  None of them rejects, so \<open>Promise.allSettled\<close> reports three fulfilled values. The
  result carries the state reached, the deliveries made, and the data or the exception.
\<close>

definition getDashboardData_try ::
  "cycle \<Rightarrow> service \<Rightarrow> service \<times> (nat \<times> dashboard_data) list \<times> (error + dashboard_data)" where
  "getDashboardData_try c s =
     (case fetchRealTimePricing (c_now c) (c_ts c) (c_pricing c) s of (s1, pricing) \<Rightarrow>
      case fetchUsageData (c_now c) (c_token c) (c_usage c) s1 of (s2, usageData) \<Rightarrow>
      case fetchExchangeRates (c_now c) (c_rates c) s2 of (s3, rates) \<Rightarrow>
        (case c_fault c of
           MergeThrows msg \<Rightarrow> (s3, [], Inl (UnexpectedError msg))
         | other \<Rightarrow>
             (let ms = combineModelData (c_toString c) (c_draws c) pricing usageData;
                  sm = calculateSummary (c_rnd c) ms;
                  dashboardData = \<lparr>models = ms, summary = Some sm, dd_exchangeRates = rates,
                                   dd_region = config_region s3, dd_lastUpdate = c_ts c,
                                   dd_status = ''success'', dd_error = None\<rparr>;
                  s4 = s3\<lparr>lastUpdate := Some dashboardData\<rparr>
              in case other of
                   BroadcastThrows msg \<Rightarrow> (s4, [], Inl (UnexpectedError msg))
                 | _ \<Rightarrow> (case broadcastToClients dashboardData s4 of
                           (s5, sent) \<Rightarrow> (s5, sent, Inr dashboardData)))))"

text \<open>The \<open>catch\<close> block returns an object marked \<open>'error'\<close> with no models.\<close>

definition getDashboardData ::
  "cycle \<Rightarrow> service \<Rightarrow> service \<times> (nat \<times> dashboard_data) list \<times> dashboard_data" where
  "getDashboardData c s =
     (case getDashboardData_try c s of
        (s', sent, Inr dashboardData) \<Rightarrow> (s', sent, dashboardData)
      | (s', sent, Inl e) \<Rightarrow>
          (s', sent, \<lparr>models = [], summary = None, dd_exchangeRates = exchangeRates s',
                      dd_region = config_region s', dd_lastUpdate = c_ts c,
                      dd_status = ''error'', dd_error = Some (message e)\<rparr>))"

section \<open>Auxiliary notions for the statements\<close>

text \<open>The pricing fetch failed: the \<open>try\<close> block of \<open>fetchRealTimePricing\<close> threw.\<close>

definition pricing_fetch_failed :: "string \<Rightarrow> raw_pricing response \<Rightarrow> bool" where
  "pricing_fetch_failed ts resp =
     (case resp of OkBody data \<Rightarrow> isl (parsePricingData ts data) | _ \<Rightarrow> True)"

text \<open>
  The usage fetch failed: a token had to be requested and the exchange did not deliver
  one, or the cost query or the parsing of its body threw.
\<close>

definition token_exchange_failed :: "int \<Rightarrow> string option response \<Rightarrow> service \<Rightarrow> bool" where
  "token_exchange_failed now token_resp s =
     (\<not> token_cache_valid now s \<and>
      (case token_resp of OkBody (Some t) \<Rightarrow> False | _ \<Rightarrow> True))"

definition cost_query_failed :: "raw_usage response \<Rightarrow> bool" where
  "cost_query_failed resp =
     (case resp of OkBody data \<Rightarrow> isl (parseUsageData data) | _ \<Rightarrow> True)"

text \<open>
  The validity of the cached token as the specification words it: the current time is
  earlier than the expiry minus a tenth of the lifetime, the lifetime being the one hour
  the source's comment names.
\<close>

definition token_lifetime :: int where
  "token_lifetime = 60 * 60 * 1000"

definition token_valid_spec :: "int \<Rightarrow> service \<Rightarrow> bool" where
  "token_valid_spec now s =
     (case cache_azure_token s of
        None \<Rightarrow> False
      | Some (d, issuedAt) \<Rightarrow> now < (issuedAt + token_lifetime) - token_lifetime div 10)"

text \<open>
  The summary as the specification words it: the model with the largest total cost, the
  first such in the list, and the time of the largest-cost bucket among the series of all
  models (the first such), if there is a bucket at all.
\<close>

definition topModel_spec :: "model_snapshot list \<Rightarrow> string option" where
  "topModel_spec ms =
     (case ms of
        [] \<Rightarrow> None
      | m0 # rest \<Rightarrow>
          map_option name
            (find (\<lambda>m. totalCost (usage m) = Max (set (map (\<lambda>m. totalCost (usage m)) ms))) ms))"

definition peakHour_spec :: "model_snapshot list \<Rightarrow> string option" where
  "peakHour_spec ms =
     (let buckets = concat (map lastHour ms)
      in map_option bucket_time
           (find (\<lambda>b. bucket_cost b = Max (set (map bucket_cost buckets))) buckets))"

text \<open>
  The percentage change from \<open>prev\<close> to \<open>cur\<close> in doubles: a difference, a quotient and
  a product, each rounded. It is a double when none of the three leaves the range.
\<close>

definition percent_change :: "real \<Rightarrow> real \<Rightarrow> real" where
  "percent_change prev cur = dbl (dbl (dbl (cur - prev) / prev) * 100)"

definition percent_change_finite :: "real \<Rightarrow> real \<Rightarrow> bool" where
  "percent_change_finite prev cur =
     (\<bar>dbl (cur - prev)\<bar> < 2 ^ 1024
      \<and> \<bar>dbl (dbl (cur - prev) / prev)\<bar> < 2 ^ 1024
      \<and> \<bar>percent_change prev cur\<bar> < 2 ^ 1024)"

text \<open>
  What holds of the \<open>Map\<close> of \<open>parsePricingData\<close> after the entries \<open>its\<close>: the keys are
  distinct, a model without an entry has no key, and a record under a key bears that
  name and has a price set exactly when an entry of that kind was seen.
\<close>

definition parse_inv :: "(string \<times> price_record) list \<Rightarrow> catalog_item list \<Rightarrow> bool" where
  "parse_inv ms its \<longleftrightarrow>
     distinct (map fst ms) \<and>
     (\<forall>k. map_of ms k = None \<longrightarrow> (\<forall>i \<in> set its. \<forall>t. classify i \<noteq> Some (k, t))) \<and>
     (\<forall>k r. map_of ms k = Some r \<longrightarrow>
        name r = k \<and>
        (inputPrice r \<noteq> None \<longleftrightarrow> (\<exists>i \<in> set its. classify i = Some (k, Input))) \<and>
        (outputPrice r \<noteq> None \<longleftrightarrow> (\<exists>i \<in> set its. classify i = Some (k, Output))))"

definition set_price :: "price_type \<Rightarrow> real \<Rightarrow> price_record \<Rightarrow> price_record" where
  "set_price ty v model =
     (case ty of Input \<Rightarrow> model\<lparr>inputPrice := Some v\<rparr> | Output \<Rightarrow> model\<lparr>outputPrice := Some v\<rparr>)"

text \<open>The entries of a body, none where the body has no array \<open>Items\<close>.\<close>

definition items_of :: "raw_pricing \<Rightarrow> catalog_item list" where
  "items_of rawData = (case rawData of RawItems its \<Rightarrow> its | _ \<Rightarrow> [])"

section \<open>Properties\<close>

subsection \<open>Exchange rates\<close>

text \<open>
  Claim C8. Whenever the exchange-rate request throws or its response is not OK (and
  also when the body cannot be read), \<open>fetchExchangeRates\<close> returns normally, its result
  is the cached \<open>{USD_CZK, USD_EUR, lastUpdate}\<close> as it was before the call, and the
  service state, the cached rates included, is the same after the call as before.
\<close>

theorem fetchExchangeRates_failure_keeps_cache:
  "fetch_failed resp \<or> resp = JsonRejects \<or> resp = OkBody None \<Longrightarrow>
     fetchExchangeRates now resp s = (s, exchangeRates s)"
  by (auto simp: fetch_failed_def fetchExchangeRates_def fetchExchangeRates_try_def
           split: response.splits)

theorem fetchExchangeRates_failure_keeps_cache_witness:
  "fetch_failed (NotOk 503 :: rates_body option response) \<and>
   fetchExchangeRates 1700000000000 (NotOk 503)
     \<lparr>config_region = ''westeurope'', cache_azure_token = None, cache_pricing = None,
      cache_usage = None,
      exchangeRates = \<lparr>USD_CZK = 24.5, USD_EUR = None, rates_lastUpdate = 1600000000000\<rparr>,
      lastUpdate = None, subscribers = []\<rparr>
   = (\<lparr>config_region = ''westeurope'', cache_azure_token = None, cache_pricing = None,
      cache_usage = None,
      exchangeRates = \<lparr>USD_CZK = 24.5, USD_EUR = None, rates_lastUpdate = 1600000000000\<rparr>,
      lastUpdate = None, subscribers = []\<rparr>,
      \<lparr>USD_CZK = 24.5, USD_EUR = None, rates_lastUpdate = 1600000000000\<rparr>)"
proof -
  have h: "fetch_failed (NotOk 503 :: rates_body option response)"
    by (simp add: fetch_failed_def)
  show ?thesis
    using h fetchExchangeRates_failure_keeps_cache [of "NotOk 503", OF disjI1, OF h]
    by simp
qed

subsection \<open>Model identification\<close>

lemma lit_here_append:
  "lit_here (a @ b) s = (lit_here a s \<and> lit_here b (drop (length a) s))"
proof (induction a arbitrary: s)
  case Nil
  show ?case by simp
next
  case (Cons p ps)
  show ?case by (cases s) (auto simp: Cons.IH)
qed

lemma first_match_None:
  "first_match rs s = None \<longleftrightarrow> (\<forall>r \<in> set rs. \<not> test (fst r) s)"
  by (induction rs s rule: first_match.induct) auto

lemma first_match_Some:
  "first_match rs s = Some (m, t) \<Longrightarrow>
     \<exists>pre p post. rs = pre @ (p, m, t) # post \<and> test p s \<and> (\<forall>r \<in> set pre. \<not> test (fst r) s)"
proof (induction rs)
  case Nil
  then show ?case by simp
next
  case (Cons r rs)
  obtain p' m' t' where r: "r = (p', m', t')" by (cases r)
  show ?case
  proof (cases "test p' s")
    case True
    with Cons.prems r have "r = (p', m, t)" by simp
    with True have "r # rs = [] @ (p', m, t) # rs \<and> test p' s
        \<and> (\<forall>r \<in> set []. \<not> test (fst r) s)" by simp
    then show ?thesis by (intro exI)
  next
    case False
    with Cons.prems r have "first_match rs s = Some (m, t)" by simp
    then obtain pre p post where h: "rs = pre @ (p, m, t) # post" "test p s"
        "\<forall>r \<in> set pre. \<not> test (fst r) s"
      using Cons.IH by blast
    with False r have "r # rs = (r # pre) @ (p, m, t) # post \<and> test p s
        \<and> (\<forall>r \<in> set (r # pre). \<not> test (fst r) s)" by simp
    then show ?thesis by (intro exI)
  qed
qed

lemma mini_rules_first:
  "test (rx_plain ''gpt-4o-mini'' ''input'') s \<or> test (rx_plain ''gpt-4o-mini'' ''output'') s \<Longrightarrow>
     \<exists>t. first_match patterns s = Some (''gpt-4o-mini'', t)"
  by (auto simp: patterns_def)

lemma dotstar_literal_ahead:
  "matches_here (Atom DotStar # Atom (Lit l) # r) s \<Longrightarrow> atoms_here [DotStar, Lit l] s"
  by (induction s) auto

lemma mini_extends_4o:
  "lit_here ''gpt-4o-mini'' s =
     (lit_here ''gpt-4o'' s \<and> lit_here ''-mini'' (drop (length ''gpt-4o'') s))"
  using lit_here_append [of "''gpt-4o''" "''-mini''" s] by simp

lemma g4o_extends_4:
  "lit_here ''gpt-4o'' s = (lit_here ''gpt-4'' s \<and> lit_here ''o'' (drop (length ''gpt-4'') s))"
  using lit_here_append [of "''gpt-4''" "''o''" s] by simp

lemma mini_excludes_4o:
  "matches_here (rx_plain ''gpt-4o-mini'' d) s \<Longrightarrow> \<not> matches_here (rx_not_mini ''gpt-4o'' d') s"
  by (simp add: rx_plain_def rx_not_mini_def mini_extends_4o)

lemma mini_excludes_4:
  "matches_here (rx_plain ''gpt-4o-mini'' d) s \<Longrightarrow> \<not> matches_here (rx_not_turbo ''gpt-4'' d') s"
  by (simp add: rx_plain_def rx_not_turbo_def mini_extends_4o g4o_extends_4)

lemma g4o_excludes_4:
  "matches_here (rx_not_mini ''gpt-4o'' d) s \<Longrightarrow> \<not> matches_here (rx_not_turbo ''gpt-4'' d') s"
  by (simp add: rx_not_mini_def rx_not_turbo_def g4o_extends_4)

lemma turbo_excludes_4:
  "matches_here (rx_turbo ''gpt-4'' d) s \<Longrightarrow> \<not> matches_here (rx_not_turbo ''gpt-4'' d') s"
  unfolding rx_turbo_def rx_not_turbo_def
  using dotstar_literal_ahead [of "''turbo''" "[Atom DotStar, Atom (Lit d)]"
          "drop (length ''gpt-4'') s"]
  by auto

lemma test_iff: "test p s \<longleftrightarrow> (\<exists>u \<in> set (tails s). matches_here p u)"
  by (simp add: test_def list_ex_iff)

lemma attributed_to_4o:
  assumes "first_match patterns s = Some (''gpt-4o'', t)"
  shows "\<exists>u \<in> set (tails s). lit_here ''gpt-4o'' u \<and> \<not> lit_here ''gpt-4o-mini'' u"
proof -
  from assms have "test (rx_not_mini ''gpt-4o'' ''input'') s
      \<or> test (rx_not_mini ''gpt-4o'' ''output'') s"
    by (auto simp: patterns_def split: if_splits)
  then obtain u d where "u \<in> set (tails s)" "matches_here (rx_not_mini ''gpt-4o'' d) u"
    by (auto simp: test_iff)
  then show ?thesis
    by (auto simp: rx_not_mini_def mini_extends_4o)
qed

lemma attributed_to_4:
  assumes "first_match patterns s = Some (''gpt-4'', t)"
  shows "\<exists>u \<in> set (tails s). lit_here ''gpt-4'' u \<and> \<not> lit_here ''gpt-4o'' u
           \<and> \<not> atoms_here [DotStar, Lit ''turbo''] (drop (length ''gpt-4'') u)"
proof -
  from assms have "test (rx_not_turbo ''gpt-4'' ''input'') s
      \<or> test (rx_not_turbo ''gpt-4'' ''output'') s"
    by (auto simp: patterns_def split: if_splits)
  then obtain u d where "u \<in> set (tails s)" "matches_here (rx_not_turbo ''gpt-4'' d) u"
    by (auto simp: test_iff)
  then show ?thesis
    by (auto simp: rx_not_turbo_def g4o_extends_4)
qed

lemma meter_name_mini:
  "js_includes (toLowerCase mn) ''gpt-4o-mini'' \<Longrightarrow>
     extractModelFromMeterName mn = Some ''gpt-4o-mini''"
  by (auto simp: extractModelFromMeterName_def js_includes_def toLowerCase_def)

lemma meter_name_4o:
  "extractModelFromMeterName mn = Some ''gpt-4o'' \<Longrightarrow>
     \<not> js_includes (toLowerCase mn) ''gpt-4o-mini''"
  by (auto simp: extractModelFromMeterName_def Let_def split: if_splits)

lemma meter_name_4:
  "extractModelFromMeterName mn = Some ''gpt-4'' \<Longrightarrow>
     \<not> js_includes (toLowerCase mn) ''gpt-4o'' \<and> \<not> js_includes (toLowerCase mn) ''gpt-4-turbo''
     \<and> \<not> js_includes (toLowerCase mn) ''gpt-4 turbo''"
  by (auto simp: extractModelFromMeterName_def Let_def split: if_splits)

lemma unmatched_item_dropped:
  "extractModelFromMeter (meterName it) (productName it) = None \<Longrightarrow> parse_item ts ms it = ms"
  by (simp add: parse_item_def)

lemma unmatched_row_dropped:
  "extractModelFromMeterName meter = None \<Longrightarrow>
     parse_row us (c, d, cur, meter, serviceName, quantity) = us"
  by (simp add: parse_row_def)

text \<open>
  Claim C4, as amended. \<open>extractModelFromMeter\<close> gives each entry at most one canonical
  model: none exactly when no rule of the table matches, and otherwise the model and
  kind of the first rule, in the order of the table, that matches; where several rules
  match, the order decides. The rules of the \<open>-mini\<close> variant come first, so an entry
  that one of them matches is classified as \<open>gpt-4o-mini\<close>. A
  rule of a more specific model and a rule of its more general counterpart never match
  at the same occurrence of the model name (\<open>gpt-4o-mini\<close> against \<open>gpt-4o\<close> and
  \<open>gpt-4\<close>, \<open>gpt-4o\<close> against \<open>gpt-4\<close>, \<open>gpt-4-turbo\<close> against \<open>gpt-4\<close>); hence an entry
  is attributed to \<open>gpt-4o\<close> only if its text has an occurrence of \<open>gpt-4o\<close> that does not
  go on as \<open>gpt-4o-mini\<close>, and to \<open>gpt-4\<close> only if it has an occurrence of \<open>gpt-4\<close> that
  does not go on as \<open>gpt-4o\<close> and has no \<open>turbo\<close> after it on the line. For a meter name,
  \<open>extractModelFromMeterName\<close> returns \<open>gpt-4o-mini\<close> whenever the name contains it, and
  returns a more general model only when the name contains none of the more specific
  ones. An entry or a row for which no model is found leaves the parser's table as it
  was.
\<close>

theorem model_identification_ordered:
  "(extractModelFromMeter mn pn = None \<longleftrightarrow>
      (\<forall>r \<in> set patterns. \<not> test (fst r) (searchText mn pn)))
   \<and> (extractModelFromMeter mn pn = Some (m, t) \<longrightarrow>
        (\<exists>pre p post. patterns = pre @ (p, m, t) # post \<and> test p (searchText mn pn) \<and>
           (\<forall>r \<in> set pre. \<not> test (fst r) (searchText mn pn))))
   \<and> (test (rx_plain ''gpt-4o-mini'' ''input'') (searchText mn pn)
         \<or> test (rx_plain ''gpt-4o-mini'' ''output'') (searchText mn pn) \<longrightarrow>
        (\<exists>t'. extractModelFromMeter mn pn = Some (''gpt-4o-mini'', t')))
   \<and> (matches_here (rx_plain ''gpt-4o-mini'' d) u \<longrightarrow>
        \<not> matches_here (rx_not_mini ''gpt-4o'' d') u \<and> \<not> matches_here (rx_not_turbo ''gpt-4'' d') u)
   \<and> (matches_here (rx_not_mini ''gpt-4o'' d) u \<longrightarrow> \<not> matches_here (rx_not_turbo ''gpt-4'' d') u)
   \<and> (matches_here (rx_turbo ''gpt-4'' d) u \<longrightarrow> \<not> matches_here (rx_not_turbo ''gpt-4'' d') u)
   \<and> (extractModelFromMeter mn pn = Some (''gpt-4o'', t) \<longrightarrow>
        (\<exists>v \<in> set (tails (searchText mn pn)).
            lit_here ''gpt-4o'' v \<and> \<not> lit_here ''gpt-4o-mini'' v))
   \<and> (extractModelFromMeter mn pn = Some (''gpt-4'', t) \<longrightarrow>
        (\<exists>v \<in> set (tails (searchText mn pn)).
            lit_here ''gpt-4'' v \<and> \<not> lit_here ''gpt-4o'' v
            \<and> \<not> atoms_here [DotStar, Lit ''turbo''] (drop (length ''gpt-4'') v)))
   \<and> (js_includes (toLowerCase mn) ''gpt-4o-mini'' \<longrightarrow>
        extractModelFromMeterName mn = Some ''gpt-4o-mini'')
   \<and> (extractModelFromMeterName mn = Some ''gpt-4o'' \<longrightarrow>
        \<not> js_includes (toLowerCase mn) ''gpt-4o-mini'')
   \<and> (extractModelFromMeterName mn = Some ''gpt-4'' \<longrightarrow>
        \<not> js_includes (toLowerCase mn) ''gpt-4o'' \<and> \<not> js_includes (toLowerCase mn) ''gpt-4-turbo''
        \<and> \<not> js_includes (toLowerCase mn) ''gpt-4 turbo'')
   \<and> (extractModelFromMeter (meterName it) (productName it) = None \<longrightarrow>
        parse_item ts ms it = ms)
   \<and> (extractModelFromMeterName mn = None \<longrightarrow>
        parse_row us (c, dt, cur, mn, sv, q) = us)"
proof -
  have a: "extractModelFromMeter mn pn = None \<longleftrightarrow>
      (\<forall>r \<in> set patterns. \<not> test (fst r) (searchText mn pn))"
    unfolding extractModelFromMeter_def by (rule first_match_None)
  have b: "extractModelFromMeter mn pn = Some (m, t) \<longrightarrow>
        (\<exists>pre p post. patterns = pre @ (p, m, t) # post \<and> test p (searchText mn pn) \<and>
           (\<forall>r \<in> set pre. \<not> test (fst r) (searchText mn pn)))"
  proof
    assume "extractModelFromMeter mn pn = Some (m, t)"
    then have "first_match patterns (searchText mn pn) = Some (m, t)"
      by (simp add: extractModelFromMeter_def)
    then show "\<exists>pre p post. patterns = pre @ (p, m, t) # post \<and> test p (searchText mn pn) \<and>
           (\<forall>r \<in> set pre. \<not> test (fst r) (searchText mn pn))"
      by (rule first_match_Some)
  qed
  have c: "test (rx_plain ''gpt-4o-mini'' ''input'') (searchText mn pn)
         \<or> test (rx_plain ''gpt-4o-mini'' ''output'') (searchText mn pn) \<longrightarrow>
        (\<exists>t'. extractModelFromMeter mn pn = Some (''gpt-4o-mini'', t'))"
    unfolding extractModelFromMeter_def by (rule impI) (rule mini_rules_first)
  have d: "extractModelFromMeter mn pn = Some (''gpt-4o'', t) \<longrightarrow>
        (\<exists>v \<in> set (tails (searchText mn pn)).
            lit_here ''gpt-4o'' v \<and> \<not> lit_here ''gpt-4o-mini'' v)"
    unfolding extractModelFromMeter_def by (rule impI) (rule attributed_to_4o)
  have e: "extractModelFromMeter mn pn = Some (''gpt-4'', t) \<longrightarrow>
        (\<exists>v \<in> set (tails (searchText mn pn)).
            lit_here ''gpt-4'' v \<and> \<not> lit_here ''gpt-4o'' v
            \<and> \<not> atoms_here [DotStar, Lit ''turbo''] (drop (length ''gpt-4'') v))"
    unfolding extractModelFromMeter_def by (rule impI) (rule attributed_to_4)
  have f: "matches_here (rx_plain ''gpt-4o-mini'' d) u \<longrightarrow>
        \<not> matches_here (rx_not_mini ''gpt-4o'' d') u \<and> \<not> matches_here (rx_not_turbo ''gpt-4'' d') u"
    using mini_excludes_4o [of d u d'] mini_excludes_4 [of d u d'] by simp
  have g: "matches_here (rx_not_mini ''gpt-4o'' d) u \<longrightarrow> \<not> matches_here (rx_not_turbo ''gpt-4'' d') u"
    using g4o_excludes_4 [of d u d'] by simp
  have h: "matches_here (rx_turbo ''gpt-4'' d) u \<longrightarrow> \<not> matches_here (rx_not_turbo ''gpt-4'' d') u"
    using turbo_excludes_4 [of d u d'] by simp
  have i: "js_includes (toLowerCase mn) ''gpt-4o-mini'' \<longrightarrow>
        extractModelFromMeterName mn = Some ''gpt-4o-mini''"
    using meter_name_mini [of mn] by simp
  have j: "extractModelFromMeterName mn = Some ''gpt-4o'' \<longrightarrow>
        \<not> js_includes (toLowerCase mn) ''gpt-4o-mini''"
    using meter_name_4o [of mn] by simp
  have k: "extractModelFromMeterName mn = Some ''gpt-4'' \<longrightarrow>
        \<not> js_includes (toLowerCase mn) ''gpt-4o'' \<and> \<not> js_includes (toLowerCase mn) ''gpt-4-turbo''
        \<and> \<not> js_includes (toLowerCase mn) ''gpt-4 turbo''"
    using meter_name_4 [of mn] by simp
  have l: "extractModelFromMeter (meterName it) (productName it) = None \<longrightarrow>
        parse_item ts ms it = ms"
    using unmatched_item_dropped [of it ts ms] by simp
  have m: "extractModelFromMeterName mn = None \<longrightarrow>
        parse_row us (c, dt, cur, mn, sv, q) = us"
    using unmatched_row_dropped [of mn us c dt cur sv q] by simp
  show ?thesis
    by (intro conjI) (fact a b c d e f g h i j k l m)+
qed

theorem model_identification_ordered_witness:
  "(test (rx_plain ''gpt-4o-mini'' ''input'') (searchText ''gpt-4o-mini Input'' ''OpenAI'')
      \<and> (\<exists>t'. extractModelFromMeter ''gpt-4o-mini Input'' ''OpenAI''
                 = Some (''gpt-4o-mini'', t')))
   \<and> (matches_here (rx_plain ''gpt-4o-mini'' ''input'') ''gpt-4o-mini input''
      \<and> \<not> matches_here (rx_not_mini ''gpt-4o'' ''input'') ''gpt-4o-mini input''
      \<and> \<not> matches_here (rx_not_turbo ''gpt-4'' ''input'') ''gpt-4o-mini input'')
   \<and> (extractModelFromMeter ''gpt-4o Output'' ''AI'' = Some (''gpt-4o'', Output)
      \<and> (\<exists>v \<in> set (tails (searchText ''gpt-4o Output'' ''AI'')).
            lit_here ''gpt-4o'' v \<and> \<not> lit_here ''gpt-4o-mini'' v))
   \<and> (js_includes (toLowerCase ''GPT-4o-mini tokens'') ''gpt-4o-mini''
      \<and> extractModelFromMeterName ''GPT-4o-mini tokens'' = Some ''gpt-4o-mini'')
   \<and> (extractModelFromMeter ''tts'' ''x'' = None
      \<and> parse_item ''2024-01-01T00:00:00.000Z'' []
           \<lparr>meterName = ''tts'', productName = ''x'',
            armRegionName = ''westeurope'', currencyCode = ''USD'', retailPrice = 1\<rparr> = [])"
proof -
  have h1: "test (rx_plain ''gpt-4o-mini'' ''input'') (searchText ''gpt-4o-mini Input'' ''OpenAI'')"
    by code_simp
  have h2: "matches_here (rx_plain ''gpt-4o-mini'' ''input'') ''gpt-4o-mini input''"
    by code_simp
  have h3: "extractModelFromMeter ''gpt-4o Output'' ''AI'' = Some (''gpt-4o'', Output)"
    by code_simp
  have h4: "js_includes (toLowerCase ''GPT-4o-mini tokens'') ''gpt-4o-mini''"
    by code_simp
  have h5: "extractModelFromMeter ''tts'' ''x'' = None"
    by code_simp
  have c1: "\<exists>t'. extractModelFromMeter ''gpt-4o-mini Input'' ''OpenAI''
                 = Some (''gpt-4o-mini'', t')"
    using h1 model_identification_ordered
      [where mn = "''gpt-4o-mini Input''" and pn = "''OpenAI''",
       THEN conjunct2, THEN conjunct2, THEN conjunct1]
    by simp
  have c2: "\<not> matches_here (rx_not_mini ''gpt-4o'' ''input'') ''gpt-4o-mini input''
      \<and> \<not> matches_here (rx_not_turbo ''gpt-4'' ''input'') ''gpt-4o-mini input''"
    using h2 model_identification_ordered
      [where d = "''input''" and d' = "''input''" and u = "''gpt-4o-mini input''",
       THEN conjunct2, THEN conjunct2, THEN conjunct2, THEN conjunct1]
    by simp
  have c3: "\<exists>v \<in> set (tails (searchText ''gpt-4o Output'' ''AI'')).
            lit_here ''gpt-4o'' v \<and> \<not> lit_here ''gpt-4o-mini'' v"
    using h3 model_identification_ordered
      [where mn = "''gpt-4o Output''" and pn = "''AI''" and t = Output,
       THEN conjunct2, THEN conjunct2, THEN conjunct2, THEN conjunct2, THEN conjunct2,
       THEN conjunct2, THEN conjunct1]
    by simp
  have c4: "extractModelFromMeterName ''GPT-4o-mini tokens'' = Some ''gpt-4o-mini''"
    using h4 model_identification_ordered
      [where mn = "''GPT-4o-mini tokens''",
       THEN conjunct2, THEN conjunct2, THEN conjunct2, THEN conjunct2, THEN conjunct2,
       THEN conjunct2, THEN conjunct2, THEN conjunct2, THEN conjunct1]
    by simp
  have c5: "parse_item ''2024-01-01T00:00:00.000Z'' []
           \<lparr>meterName = ''tts'', productName = ''x'',
            armRegionName = ''westeurope'', currencyCode = ''USD'', retailPrice = 1\<rparr> = []"
    using h5 model_identification_ordered
      [where it = "\<lparr>meterName = ''tts'', productName = ''x'',
            armRegionName = ''westeurope'', currencyCode = ''USD'', retailPrice = 1\<rparr>"
         and ts = "''2024-01-01T00:00:00.000Z''" and ms = "[]",
       THEN conjunct2, THEN conjunct2, THEN conjunct2, THEN conjunct2, THEN conjunct2,
       THEN conjunct2, THEN conjunct2, THEN conjunct2, THEN conjunct2, THEN conjunct2,
       THEN conjunct2, THEN conjunct1]
    by simp
  show ?thesis
    by (intro conjI) (fact h1 h2 h3 h4 h5 c1 c2 [THEN conjunct1] c2 [THEN conjunct2] c3 c4 c5)+
qed

text \<open>
  The claim as stated fails. The rules are not mutually exclusive: the rule of \<open>gpt-4o\<close>
  and the rule of \<open>gpt-4-turbo\<close> both match \<open>gpt-4o turbo input\<close>, the rule of
  \<open>gpt-4o-mini\<close> and the rule of \<open>gpt-4-turbo\<close> both match \<open>gpt-4o-mini turbo input\<close>,
  and the input rule and the output rule of \<open>gpt-4o\<close> both match
  \<open>gpt-4o output per input\<close>. And an entry whose text names \<open>gpt-4o-mini\<close> is attributed
  to \<open>gpt-4o\<close>: the meter \<open>gpt-4o input\<close> of the product \<open>azure openai gpt-4o-mini\<close>.
\<close>

theorem model_identification_counterexample:
  "test (rx_not_mini ''gpt-4o'' ''input'') ''gpt-4o turbo input''
   \<and> test (rx_turbo ''gpt-4'' ''input'') ''gpt-4o turbo input''
   \<and> test (rx_plain ''gpt-4o-mini'' ''input'') ''gpt-4o-mini turbo input''
   \<and> test (rx_turbo ''gpt-4'' ''input'') ''gpt-4o-mini turbo input''
   \<and> test (rx_not_mini ''gpt-4o'' ''input'') ''gpt-4o output per input''
   \<and> test (rx_not_mini ''gpt-4o'' ''output'') ''gpt-4o output per input''
   \<and> js_includes (searchText ''gpt-4o input'' ''azure openai gpt-4o-mini'') ''gpt-4o-mini''
   \<and> extractModelFromMeter ''gpt-4o input'' ''azure openai gpt-4o-mini''
       = Some (''gpt-4o'', Input)"
proof -
  have a: "test (rx_not_mini ''gpt-4o'' ''input'') ''gpt-4o turbo input''"
    by code_simp
  have b: "test (rx_turbo ''gpt-4'' ''input'') ''gpt-4o turbo input''"
    by code_simp
  have c: "test (rx_plain ''gpt-4o-mini'' ''input'') ''gpt-4o-mini turbo input''"
    by code_simp
  have d: "test (rx_turbo ''gpt-4'' ''input'') ''gpt-4o-mini turbo input''"
    by code_simp
  have e: "test (rx_not_mini ''gpt-4o'' ''input'') ''gpt-4o output per input''"
    by code_simp
  have f: "test (rx_not_mini ''gpt-4o'' ''output'') ''gpt-4o output per input''"
    by code_simp
  have g: "js_includes (searchText ''gpt-4o input'' ''azure openai gpt-4o-mini'') ''gpt-4o-mini''"
    by code_simp
  have h: "extractModelFromMeter ''gpt-4o input'' ''azure openai gpt-4o-mini''
       = Some (''gpt-4o'', Input)"
    by code_simp
  show ?thesis
    by (intro conjI) (fact a b c d e f g h)+
qed

subsection \<open>Parsing the price catalog\<close>

lemma map_of_parse_item:
  "map_of (parse_item ts ms x) k =
     (case classify x of
        None \<Rightarrow> map_of ms k
      | Some (key, ty) \<Rightarrow>
          if k = key
          then Some (set_price ty (retailPrice x)
                 (case map_of ms key of
                    None \<Rightarrow> \<lparr>name = key, inputPrice = None, outputPrice = None,
                              region = armRegionName x, currency = currencyCode x,
                              status = ''active'', lastUpdated = ts\<rparr>
                  | Some r \<Rightarrow> r))
          else map_of ms k)"
proof (cases "classify x")
  case None
  then show ?thesis by (simp add: parse_item_def classify_def)
next
  case (Some kt)
  obtain key ty where kt: "kt = (key, ty)" by (cases kt)
  show ?thesis
  proof (cases "map_of ms key")
    case None
    with Some kt show ?thesis
      by (cases ty)
         (auto simp: parse_item_def classify_def set_price_def Let_def map_of_map_entry
            map_add_def split: option.splits)
  next
    case (Some r)
    with \<open>classify x = Some kt\<close> kt show ?thesis
      by (cases ty)
         (simp_all add: parse_item_def classify_def set_price_def Let_def map_of_map_entry)
  qed
qed

lemma distinct_parse_item:
  "distinct (map fst ms) \<Longrightarrow> distinct (map fst (parse_item ts ms x))"
  by (auto simp: parse_item_def Let_def distinct_map_entry map_of_eq_None_iff
           split: option.splits)

lemma parse_inv_empty: "parse_inv [] []"
  by (simp add: parse_inv_def)

lemma parse_inv_step:
  assumes "parse_inv ms its"
  shows "parse_inv (parse_item ts ms x) (its @ [x])"
proof (cases "classify x")
  case None
  with assms show ?thesis
    by (auto simp: parse_inv_def map_of_parse_item distinct_parse_item)
next
  case (Some kt)
  obtain key ty where kt: "kt = (key, ty)" by (cases kt)
  from assms have d: "distinct (map fst (parse_item ts ms x))"
    by (simp add: parse_inv_def distinct_parse_item)
  show ?thesis
  proof (cases "map_of ms key")
    case None
    with assms Some kt d show ?thesis
      unfolding parse_inv_def
      by (cases ty) (auto simp: map_of_parse_item set_price_def)
  next
    case (Some r)
    with assms \<open>classify x = Some kt\<close> kt d show ?thesis
      unfolding parse_inv_def
      by (cases ty) (auto simp: map_of_parse_item set_price_def)
  qed
qed

lemma parse_inv_foldl: "parse_inv (foldl (parse_item ts) [] its) its"
proof (induction its rule: rev_induct)
  case Nil
  show ?case by (simp add: parse_inv_empty)
next
  case (snoc x xs)
  then show ?case by (simp add: parse_inv_step)
qed

lemma parse_inv_names: "parse_inv ms its \<Longrightarrow> map name (map snd ms) = map fst ms"
proof -
  assume a: "parse_inv ms its"
  have "\<forall>p \<in> set ms. name (snd p) = fst p"
  proof
    fix p assume "p \<in> set ms"
    with a have "map_of ms (fst p) = Some (snd p)" by (simp add: parse_inv_def)
    with a show "name (snd p) = fst p" unfolding parse_inv_def by blast
  qed
  then show ?thesis by (induction ms) auto
qed

lemma parse_items_distinct: "distinct (map name (parsePricingData_items ts its))"
proof -
  have "distinct (map name (map snd (foldl (parse_item ts) [] its)))"
    using parse_inv_foldl [of ts its] parse_inv_names [of "foldl (parse_item ts) [] its" its]
    by (simp add: parse_inv_def del: map_map)
  then show ?thesis
    unfolding parsePricingData_items_def by (rule distinct_map_filter)
qed

lemma parse_items_emitted:
  "m \<in> set (map name (parsePricingData_items ts its)) \<longleftrightarrow>
     (\<exists>i \<in> set its. classify i = Some (m, Input)) \<and> (\<exists>i \<in> set its. classify i = Some (m, Output))"
proof -
  let ?ms = "foldl (parse_item ts) [] its"
  have inv: "parse_inv ?ms its" by (rule parse_inv_foldl)
  then have d: "distinct (map fst ?ms)" by (simp add: parse_inv_def)
  have "m \<in> set (map name (parsePricingData_items ts its)) \<longleftrightarrow>
        (\<exists>k r. (k, r) \<in> set ?ms \<and> name r = m \<and> inputPrice r \<noteq> None \<and> outputPrice r \<noteq> None)"
    by (force simp: parsePricingData_items_def)
  also have "\<dots> \<longleftrightarrow>
        (\<exists>k r. map_of ?ms k = Some r \<and> name r = m \<and> inputPrice r \<noteq> None \<and> outputPrice r \<noteq> None)"
    using d by simp
  also have "\<dots> \<longleftrightarrow>
        (\<exists>r. map_of ?ms m = Some r \<and> inputPrice r \<noteq> None \<and> outputPrice r \<noteq> None)"
    using inv unfolding parse_inv_def by blast
  also have "\<dots> \<longleftrightarrow>
        (\<exists>i \<in> set its. classify i = Some (m, Input)) \<and> (\<exists>i \<in> set its. classify i = Some (m, Output))"
  proof (cases "map_of ?ms m")
    case None
    with inv show ?thesis unfolding parse_inv_def by auto
  next
    case (Some r)
    with inv show ?thesis unfolding parse_inv_def by auto
  qed
  finally show ?thesis .
qed

lemma parse_items_both_set:
  "r \<in> set (parsePricingData_items ts its) \<Longrightarrow> inputPrice r \<noteq> None \<and> outputPrice r \<noteq> None"
  by (simp add: parsePricingData_items_def)

text \<open>
  Claim C5. Whenever \<open>parsePricingData\<close> returns a list for a body, no two records of
  the list bear the same model name; a model name occurs in the list exactly when the
  entries of the body hold one that is classified as the input price of that model and
  one that is classified as its output price; and every record of the list has both
  prices set. So a model with only one of the two kinds of entry is not in the list.
\<close>

theorem parsePricingData_one_record_per_priced_model:
  assumes "parsePricingData ts rawData = Inr out"
  shows "distinct (map name out)
     \<and> (m \<in> set (map name out) \<longleftrightarrow>
          (\<exists>i \<in> set (items_of rawData). classify i = Some (m, Input))
        \<and> (\<exists>i \<in> set (items_of rawData). classify i = Some (m, Output)))
     \<and> (\<forall>r \<in> set out. inputPrice r \<noteq> None \<and> outputPrice r \<noteq> None)"
proof (cases rawData)
  case RawNull
  with assms show ?thesis by (simp add: parsePricingData_def)
next
  case RawNoItems
  with assms show ?thesis by (auto simp: parsePricingData_def items_of_def)
next
  case RawItemsNotArray
  with assms show ?thesis by (simp add: parsePricingData_def)
next
  case (RawItems its)
  with assms have out: "out = parsePricingData_items ts its" and it: "items_of rawData = its"
    by (simp_all add: parsePricingData_def items_of_def)
  show ?thesis
    unfolding out it
    using parse_items_distinct [of ts its] parse_items_emitted [of m ts its]
      parse_items_both_set [of _ ts its]
    by blast
qed

theorem parsePricingData_one_record_per_priced_model_witness:
  "parsePricingData ''t''
     (RawItems [\<lparr>meterName = ''gpt-4o input'', productName = [], armRegionName = ''westeurope'',
                  currencyCode = ''USD'', retailPrice = 0.0000025\<rparr>,
                \<lparr>meterName = ''gpt-4o output'', productName = [], armRegionName = ''westeurope'',
                  currencyCode = ''USD'', retailPrice = 0.00001\<rparr>,
                \<lparr>meterName = ''gpt-4 input'', productName = [], armRegionName = ''westeurope'',
                  currencyCode = ''USD'', retailPrice = 0.00003\<rparr>])
     = Inr [\<lparr>name = ''gpt-4o'', inputPrice = Some 0.0000025, outputPrice = Some 0.00001,
             region = ''westeurope'', currency = ''USD'', status = ''active'',
             lastUpdated = ''t''\<rparr>]
   \<and> (\<exists>i \<in> set [\<lparr>meterName = ''gpt-4o input'', productName = [], armRegionName = ''westeurope'',
                  currencyCode = ''USD'', retailPrice = 0.0000025\<rparr>,
                \<lparr>meterName = ''gpt-4o output'', productName = [], armRegionName = ''westeurope'',
                  currencyCode = ''USD'', retailPrice = 0.00001\<rparr>,
                \<lparr>meterName = ''gpt-4 input'', productName = [], armRegionName = ''westeurope'',
                  currencyCode = ''USD'', retailPrice = 0.00003\<rparr>].
          classify i = Some (''gpt-4o'', Output))
   \<and> \<not> ((\<exists>i \<in> set [\<lparr>meterName = ''gpt-4o input'', productName = [], armRegionName = ''westeurope'',
                  currencyCode = ''USD'', retailPrice = 0.0000025\<rparr>,
                \<lparr>meterName = ''gpt-4o output'', productName = [], armRegionName = ''westeurope'',
                  currencyCode = ''USD'', retailPrice = 0.00001\<rparr>,
                \<lparr>meterName = ''gpt-4 input'', productName = [], armRegionName = ''westeurope'',
                  currencyCode = ''USD'', retailPrice = 0.00003\<rparr>].
          classify i = Some (''gpt-4'', Input))
        \<and> (\<exists>i \<in> set [\<lparr>meterName = ''gpt-4o input'', productName = [], armRegionName = ''westeurope'',
                  currencyCode = ''USD'', retailPrice = 0.0000025\<rparr>,
                \<lparr>meterName = ''gpt-4o output'', productName = [], armRegionName = ''westeurope'',
                  currencyCode = ''USD'', retailPrice = 0.00001\<rparr>,
                \<lparr>meterName = ''gpt-4 input'', productName = [], armRegionName = ''westeurope'',
                  currencyCode = ''USD'', retailPrice = 0.00003\<rparr>].
          classify i = Some (''gpt-4'', Output)))"
proof -
  let ?its = "[\<lparr>meterName = ''gpt-4o input'', productName = [], armRegionName = ''westeurope'',
                  currencyCode = ''USD'', retailPrice = 0.0000025\<rparr>,
                \<lparr>meterName = ''gpt-4o output'', productName = [], armRegionName = ''westeurope'',
                  currencyCode = ''USD'', retailPrice = 0.00001\<rparr>,
                \<lparr>meterName = ''gpt-4 input'', productName = [], armRegionName = ''westeurope'',
                  currencyCode = ''USD'', retailPrice = 0.00003\<rparr>]"
  let ?out = "[\<lparr>name = ''gpt-4o'', inputPrice = Some 0.0000025, outputPrice = Some 0.00001,
             region = ''westeurope'', currency = ''USD'', status = ''active'',
             lastUpdated = ''t''\<rparr>]"
  have h: "parsePricingData ''t'' (RawItems ?its) = Inr ?out"
    by code_simp
  have i: "items_of (RawItems ?its) = ?its"
    by (simp add: items_of_def)
  have g1: "\<exists>i \<in> set ?its. classify i = Some (''gpt-4o'', Output)"
    using parsePricingData_one_record_per_priced_model [OF h, of "''gpt-4o''"]
    unfolding i by simp
  have g2: "\<not> ((\<exists>i \<in> set ?its. classify i = Some (''gpt-4'', Input))
        \<and> (\<exists>i \<in> set ?its. classify i = Some (''gpt-4'', Output)))"
    using parsePricingData_one_record_per_priced_model [OF h, of "''gpt-4''"]
    unfolding i by simp
  show ?thesis using h g1 g2 by (intro conjI)
qed

subsection \<open>Pricing fetch\<close>

lemma fetchRealTimePricing_success:
  "parsePricingData ts data = Inr parsed \<Longrightarrow>
     fetchRealTimePricing now ts (OkBody data) s = (s\<lparr>cache_pricing := Some (parsed, now)\<rparr>, parsed)"
  by (simp add: fetchRealTimePricing_def fetchRealTimePricing_try_def)

text \<open>
  Claim C1, as amended. Whenever the catalog request or the parsing of its response
  fails, \<open>fetchRealTimePricing\<close> returns normally with the built-in default list,
  whether or not an earlier fetch succeeded, and leaves the service state, the entry
  cached under \<open>'pricing'\<close> included, as it was.
\<close>

theorem fetchRealTimePricing_failure_returns_builtin:
  "pricing_fetch_failed ts resp \<Longrightarrow>
     fetchRealTimePricing now ts resp s = (s, getFallbackPricing (config_region s) ts)"
  by (auto simp: pricing_fetch_failed_def fetchRealTimePricing_def fetchRealTimePricing_try_def
           split: response.splits sum.splits)

theorem fetchRealTimePricing_failure_returns_builtin_witness:
  "pricing_fetch_failed ''t2'' (OkBody RawNull)
   \<and> fetchRealTimePricing 2000 ''t2'' (OkBody RawNull) (new_service ''westeurope'' 0)
       = (new_service ''westeurope'' 0, getFallbackPricing ''westeurope'' ''t2'')"
proof -
  have h: "pricing_fetch_failed ''t2'' (OkBody RawNull)"
    by (simp add: pricing_fetch_failed_def parsePricingData_def)
  show ?thesis
    using h fetchRealTimePricing_failure_returns_builtin
      [OF h, of 2000 "new_service ''westeurope'' 0"]
    by (simp add: new_service_def)
qed

text \<open>
  The claim as stated fails: after a fetch that succeeded with a list holding only
  \<open>gpt-4\<close>, which is cached, a fetch whose request is rejected returns the three
  built-in records and not that list.
\<close>

theorem fetchRealTimePricing_last_good_counterexample:
  "snd (fetchRealTimePricing 1000 ''t1''
          (OkBody (RawItems
             [\<lparr>meterName = ''gpt-4 input'', productName = [], armRegionName = ''westeurope'',
               currencyCode = ''USD'', retailPrice = 0.00003\<rparr>,
              \<lparr>meterName = ''gpt-4 output'', productName = [], armRegionName = ''westeurope'',
               currencyCode = ''USD'', retailPrice = 0.00006\<rparr>]))
          (new_service ''westeurope'' 0))
     = [\<lparr>name = ''gpt-4'', inputPrice = Some 0.00003, outputPrice = Some 0.00006,
         region = ''westeurope'', currency = ''USD'', status = ''active'', lastUpdated = ''t1''\<rparr>]
   \<and> cache_pricing (fst (fetchRealTimePricing 1000 ''t1''
          (OkBody (RawItems
             [\<lparr>meterName = ''gpt-4 input'', productName = [], armRegionName = ''westeurope'',
               currencyCode = ''USD'', retailPrice = 0.00003\<rparr>,
              \<lparr>meterName = ''gpt-4 output'', productName = [], armRegionName = ''westeurope'',
               currencyCode = ''USD'', retailPrice = 0.00006\<rparr>]))
          (new_service ''westeurope'' 0)))
     = Some ([\<lparr>name = ''gpt-4'', inputPrice = Some 0.00003, outputPrice = Some 0.00006,
         region = ''westeurope'', currency = ''USD'', status = ''active'', lastUpdated = ''t1''\<rparr>],
         1000)
   \<and> snd (fetchRealTimePricing 2000 ''t2'' FetchRejects
        (fst (fetchRealTimePricing 1000 ''t1''
          (OkBody (RawItems
             [\<lparr>meterName = ''gpt-4 input'', productName = [], armRegionName = ''westeurope'',
               currencyCode = ''USD'', retailPrice = 0.00003\<rparr>,
              \<lparr>meterName = ''gpt-4 output'', productName = [], armRegionName = ''westeurope'',
               currencyCode = ''USD'', retailPrice = 0.00006\<rparr>]))
          (new_service ''westeurope'' 0))))
     = getFallbackPricing ''westeurope'' ''t2''
   \<and> getFallbackPricing ''westeurope'' ''t2''
     \<noteq> [\<lparr>name = ''gpt-4'', inputPrice = Some 0.00003, outputPrice = Some 0.00006,
         region = ''westeurope'', currency = ''USD'', status = ''active'', lastUpdated = ''t1''\<rparr>]"
proof -
  have p: "parsePricingData ''t1'' (RawItems
             [\<lparr>meterName = ''gpt-4 input'', productName = [], armRegionName = ''westeurope'',
               currencyCode = ''USD'', retailPrice = 0.00003\<rparr>,
              \<lparr>meterName = ''gpt-4 output'', productName = [], armRegionName = ''westeurope'',
               currencyCode = ''USD'', retailPrice = 0.00006\<rparr>])
     = Inr [\<lparr>name = ''gpt-4'', inputPrice = Some 0.00003, outputPrice = Some 0.00006,
         region = ''westeurope'', currency = ''USD'', status = ''active'', lastUpdated = ''t1''\<rparr>]"
    by code_simp
  show ?thesis
    unfolding fetchRealTimePricing_success [OF p, of 1000 "new_service ''westeurope'' 0"]
    by (simp add: fetchRealTimePricing_def fetchRealTimePricing_try_def new_service_def
          getFallbackPricing_def)
qed

subsection \<open>Access token\<close>

text \<open>
  Claim C10, as amended. The cached token is returned, without a call of the token
  endpoint and with the state unchanged, exactly while the current time is earlier than
  the time of caching plus fifty minutes, that is one hour after caching minus a fixed
  margin of ten minutes (a sixth of the hour; the expiry the endpoint reports is not
  read). Otherwise the token endpoint is called: a token that arrives is cached with the
  current time, replacing the old entry, and returned; if the request is rejected or its
  body cannot be read the error is thrown to the caller, no token is returned and the
  state is left as it was.
\<close>

theorem getAzureAccessToken_reuse_or_exchange:
  "(token_cache_valid now s \<longleftrightarrow>
      (\<exists>d issuedAt. cache_azure_token s = Some (d, issuedAt)
          \<and> now < (issuedAt + token_lifetime) - 10 * 60 * 1000))
   \<and> (token_cache_valid now s \<longrightarrow>
        (\<exists>d issuedAt. cache_azure_token s = Some (d, issuedAt)
           \<and> getAzureAccessToken now resp s = (s, False, Inr d)))
   \<and> (\<not> token_cache_valid now s \<longrightarrow>
        (case resp of
           OkBody (Some access_token) \<Rightarrow>
             getAzureAccessToken now resp s
               = (s\<lparr>cache_azure_token := Some (access_token, now)\<rparr>, True, Inr access_token)
         | _ \<Rightarrow> (\<exists>e. getAzureAccessToken now resp s = (s, True, Inl e))))"
proof -
  have a: "token_cache_valid now s \<longleftrightarrow>
      (\<exists>d issuedAt. cache_azure_token s = Some (d, issuedAt)
          \<and> now < (issuedAt + token_lifetime) - 10 * 60 * 1000)"
    by (auto simp: token_cache_valid_def token_lifetime_def split: option.splits)
  have b: "token_cache_valid now s \<longrightarrow>
        (\<exists>d issuedAt. cache_azure_token s = Some (d, issuedAt)
           \<and> getAzureAccessToken now resp s = (s, False, Inr d))"
    by (auto simp: token_cache_valid_def getAzureAccessToken_def split: option.splits)
  have c: "\<not> token_cache_valid now s \<longrightarrow>
        (case resp of
           OkBody (Some access_token) \<Rightarrow>
             getAzureAccessToken now resp s
               = (s\<lparr>cache_azure_token := Some (access_token, now)\<rparr>, True, Inr access_token)
         | _ \<Rightarrow> (\<exists>e. getAzureAccessToken now resp s = (s, True, Inl e)))"
    by (simp add: getAzureAccessToken_def split: response.splits option.splits)
  show ?thesis using a b c by (intro conjI)
qed

theorem getAzureAccessToken_reuse_or_exchange_witness:
  "token_cache_valid 2999999 ((new_service ''westeurope'' 0)\<lparr>cache_azure_token := Some (''old'', 0)\<rparr>)
   \<and> getAzureAccessToken 2999999 (OkBody (Some ''new''))
        ((new_service ''westeurope'' 0)\<lparr>cache_azure_token := Some (''old'', 0)\<rparr>)
      = ((new_service ''westeurope'' 0)\<lparr>cache_azure_token := Some (''old'', 0)\<rparr>, False, Inr ''old'')
   \<and> \<not> token_cache_valid 3000000 ((new_service ''westeurope'' 0)\<lparr>cache_azure_token := Some (''old'', 0)\<rparr>)
   \<and> getAzureAccessToken 3000000 (OkBody (Some ''new''))
        ((new_service ''westeurope'' 0)\<lparr>cache_azure_token := Some (''old'', 0)\<rparr>)
      = ((new_service ''westeurope'' 0)\<lparr>cache_azure_token := Some (''new'', 3000000)\<rparr>, True, Inr ''new'')
   \<and> (\<exists>e. getAzureAccessToken 3000000 (NotOk 401)
        ((new_service ''westeurope'' 0)\<lparr>cache_azure_token := Some (''old'', 0)\<rparr>)
      = ((new_service ''westeurope'' 0)\<lparr>cache_azure_token := Some (''old'', 0)\<rparr>, True, Inl e))"
proof -
  let ?s = "(new_service ''westeurope'' 0)\<lparr>cache_azure_token := Some (''old'', 0)\<rparr>"
  have v: "token_cache_valid 2999999 ?s"
    by (simp add: token_cache_valid_def)
  have n: "\<not> token_cache_valid 3000000 ?s"
    by (simp add: token_cache_valid_def)
  have r1: "getAzureAccessToken 2999999 (OkBody (Some ''new'')) ?s = (?s, False, Inr ''old'')"
    using v getAzureAccessToken_reuse_or_exchange
      [of 2999999 ?s "OkBody (Some ''new'')", THEN conjunct2, THEN conjunct1]
    by auto
  have r2: "getAzureAccessToken 3000000 (OkBody (Some ''new'')) ?s
      = ((new_service ''westeurope'' 0)\<lparr>cache_azure_token := Some (''new'', 3000000)\<rparr>, True, Inr ''new'')"
    using n getAzureAccessToken_reuse_or_exchange
      [of 3000000 ?s "OkBody (Some ''new'')", THEN conjunct2, THEN conjunct2]
    by simp
  have r3: "\<exists>e. getAzureAccessToken 3000000 (NotOk 401) ?s = (?s, True, Inl e)"
    using n getAzureAccessToken_reuse_or_exchange
      [of 3000000 ?s "NotOk 401", THEN conjunct2, THEN conjunct2]
    by simp
  show ?thesis using v n r1 r2 r3 by (intro conjI)
qed

text \<open>
  The claim as stated fails: with a margin of a tenth of the one-hour lifetime the
  token cached at time 0 would still be valid 52 minutes later, yet the token endpoint
  is called and the cached token replaced.
\<close>

theorem getAzureAccessToken_margin_counterexample:
  "token_valid_spec 3120000 ((new_service ''westeurope'' 0)\<lparr>cache_azure_token := Some (''old'', 0)\<rparr>)
   \<and> getAzureAccessToken 3120000 (OkBody (Some ''new''))
        ((new_service ''westeurope'' 0)\<lparr>cache_azure_token := Some (''old'', 0)\<rparr>)
      = ((new_service ''westeurope'' 0)\<lparr>cache_azure_token := Some (''new'', 3120000)\<rparr>, True, Inr ''new'')"
  by (simp add: token_valid_spec_def token_lifetime_def getAzureAccessToken_def
        token_cache_valid_def new_service_def)

subsection \<open>Shared facts about the summary and the snapshot\<close>

lemma foldl_add_sum_list:
  fixes a :: "'a :: monoid_add"
  shows "foldl (\<lambda>sum x. sum + f x) a xs = a + sum_list (map f xs)"
  by (induction xs arbitrary: a) (simp_all add: add.assoc)

lemma summary_totalCost:
  "sum_totalCost (calculateSummary rnd ms) = sum_list (map (\<lambda>m. totalCost (usage m)) ms)"
  by (simp add: calculateSummary_def Let_def foldl_add_sum_list)

lemma map_enumerate_ignore_index:
  "map (\<lambda>(j, x). f x) (enumerate n xs) = map f xs"
  by (induction xs arbitrary: n) simp_all

lemma usage_combine_one: "usage (combine_one ts dr U pm) = usage_or_zero U (name pm)"
  by (simp add: combine_one_def Let_def price_record.defs model_snapshot.defs)

lemma name_combine_one: "name (combine_one ts dr U pm) = name pm"
  by (simp add: combine_one_def Let_def price_record.defs model_snapshot.defs)

lemma usage_combineModelData:
  "map usage (combineModelData ts dr pricing U) = map (\<lambda>pm. usage_or_zero U (name pm)) pricing"
proof -
  have "map usage (combineModelData ts dr pricing U)
      = map (\<lambda>(j, pm). usage_or_zero U (name pm)) (enumerate 0 pricing)"
    by (simp add: combineModelData_def usage_combine_one case_prod_unfold)
  then show ?thesis by (simp add: map_enumerate_ignore_index)
qed

lemma name_combineModelData:
  "map name (combineModelData ts dr pricing U) = map name pricing"
proof -
  have "map name (combineModelData ts dr pricing U)
      = map (\<lambda>(j, pm). name pm) (enumerate 0 pricing)"
    by (simp add: combineModelData_def name_combine_one case_prod_unfold)
  then show ?thesis by (simp add: map_enumerate_ignore_index)
qed

lemma fetchRealTimePricing_keeps_token:
  "cache_azure_token (fst (fetchRealTimePricing now ts resp s)) = cache_azure_token s"
  by (simp add: fetchRealTimePricing_def fetchRealTimePricing_try_def
        split: response.splits sum.splits)





lemma fetchUsageData_failure:
  assumes "token_exchange_failed now token_resp s \<or> cost_query_failed resp"
  shows "snd (fetchUsageData now token_resp resp s) = getFallbackUsage"
proof -
  obtain s1 called r where g: "getAzureAccessToken now token_resp s = (s1, called, r)"
    by (cases "getAzureAccessToken now token_resp s")
  show ?thesis
  proof (cases r)
    case (Inl e)
    with g show ?thesis by (simp add: fetchUsageData_def fetchUsageData_try_def)
  next
    case (Inr tok)
    have "\<not> token_exchange_failed now token_resp s"
    proof
      assume "token_exchange_failed now token_resp s"
      then have "\<exists>e. r = Inl e" using g
        by (auto simp: token_exchange_failed_def getAzureAccessToken_def
              split: response.splits option.splits)
      with Inr show False by simp
    qed
    with assms have "cost_query_failed resp" by simp
    with g Inr show ?thesis
      by (auto simp: fetchUsageData_def fetchUsageData_try_def cost_query_failed_def
            split: response.splits sum.splits)
  qed
qed

text \<open>
  The three fetches of one cycle, run one after the other as in the \<open>try\<close> block.
\<close>

lemma getDashboardData_no_fault:
  assumes "c_fault c = NoFault"
  shows "\<exists>s' sent.
     getDashboardData c s =
       (s', sent,
        \<lparr>models = combineModelData (c_toString c) (c_draws c)
                    (snd (fetchRealTimePricing (c_now c) (c_ts c) (c_pricing c) s))
                    (snd (fetchUsageData (c_now c) (c_token c) (c_usage c)
                       (fst (fetchRealTimePricing (c_now c) (c_ts c) (c_pricing c) s)))),
         summary = Some (calculateSummary (c_rnd c)
                    (combineModelData (c_toString c) (c_draws c)
                       (snd (fetchRealTimePricing (c_now c) (c_ts c) (c_pricing c) s))
                       (snd (fetchUsageData (c_now c) (c_token c) (c_usage c)
                          (fst (fetchRealTimePricing (c_now c) (c_ts c) (c_pricing c) s)))))),
         dd_exchangeRates = snd (fetchExchangeRates (c_now c) (c_rates c)
             (fst (fetchUsageData (c_now c) (c_token c) (c_usage c)
                (fst (fetchRealTimePricing (c_now c) (c_ts c) (c_pricing c) s))))),
         dd_region = config_region (fst (fetchExchangeRates (c_now c) (c_rates c)
             (fst (fetchUsageData (c_now c) (c_token c) (c_usage c)
                (fst (fetchRealTimePricing (c_now c) (c_ts c) (c_pricing c) s)))))),
         dd_lastUpdate = c_ts c, dd_status = ''success'', dd_error = None\<rparr>)
     \<and> lastUpdate s' = Some (snd (snd (getDashboardData c s)))"
proof -
  obtain s1 p where f1: "fetchRealTimePricing (c_now c) (c_ts c) (c_pricing c) s = (s1, p)"
    by (cases "fetchRealTimePricing (c_now c) (c_ts c) (c_pricing c) s")
  obtain s2 u where f2: "fetchUsageData (c_now c) (c_token c) (c_usage c) s1 = (s2, u)"
    by (cases "fetchUsageData (c_now c) (c_token c) (c_usage c) s1")
  obtain s3 r where f3: "fetchExchangeRates (c_now c) (c_rates c) s2 = (s3, r)"
    by (cases "fetchExchangeRates (c_now c) (c_rates c) s2")
  show ?thesis
    using assms
    by (simp add: getDashboardData_def getDashboardData_try_def f1 f2 f3 Let_def
          broadcastToClients_def)
qed




lemma pricing_names_distinct:
  "distinct (map name (snd (fetchRealTimePricing now ts resp s)))"
proof (cases "fetchRealTimePricing_try now ts resp s")
  case (Inl e)
  then show ?thesis
    by (simp add: fetchRealTimePricing_def getFallbackPricing_def)
next
  case (Inr r)
  then obtain data parsed where "resp = OkBody data" "parsePricingData ts data = Inr parsed"
      "snd r = parsed"
    by (auto simp: fetchRealTimePricing_try_def split: response.splits sum.splits)
  with Inr show ?thesis
    by (cases data)
       (auto simp: fetchRealTimePricing_def parsePricingData_def parse_items_distinct)
qed

subsection \<open>Usage fetch\<close>

text \<open>
  Claim C6. Whenever the token exchange or the cost query (or the parsing of its body)
  fails, \<open>fetchUsageData\<close> returns normally with the built-in usage mapping. If, in
  addition, no unexpected exception occurs while the snapshot is built, then
  \<open>getDashboardData\<close> returns a snapshot marked \<open>'success'\<close>, published as
  \<open>lastUpdate\<close>, with one model per price record and distinct model names, in which
  every model carries the built-in usage of its name (or the zero usage where the
  built-in mapping has none) and \<open>summary.totalCost\<close> is the sum of these costs.
\<close>

theorem usage_failure_falls_back:
  assumes "token_exchange_failed (c_now c) (c_token c) s \<or> cost_query_failed (c_usage c)"
      and "c_fault c = NoFault"
  shows "snd (fetchUsageData (c_now c) (c_token c) (c_usage c) s) = getFallbackUsage
     \<and> (\<exists>s' sent d sm.
           getDashboardData c s = (s', sent, d) \<and> lastUpdate s' = Some d
         \<and> dd_status d = ''success'' \<and> dd_error d = None \<and> summary d = Some sm
         \<and> distinct (map name (models d))
         \<and> map usage (models d)
              = map (\<lambda>pm. usage_or_zero getFallbackUsage (name pm))
                  (snd (fetchRealTimePricing (c_now c) (c_ts c) (c_pricing c) s))
         \<and> sum_totalCost sm
              = sum_list (map (\<lambda>pm. totalCost (usage_or_zero getFallbackUsage (name pm)))
                  (snd (fetchRealTimePricing (c_now c) (c_ts c) (c_pricing c) s))))"
proof -
  let ?s1 = "fst (fetchRealTimePricing (c_now c) (c_ts c) (c_pricing c) s)"
  let ?p = "snd (fetchRealTimePricing (c_now c) (c_ts c) (c_pricing c) s)"
  let ?ms = "combineModelData (c_toString c) (c_draws c) ?p getFallbackUsage"
  have a: "snd (fetchUsageData (c_now c) (c_token c) (c_usage c) s) = getFallbackUsage"
    using assms(1) by (rule fetchUsageData_failure)
  have "token_exchange_failed (c_now c) (c_token c) ?s1 \<or> cost_query_failed (c_usage c)"
    using assms(1)
    by (simp add: token_exchange_failed_def token_cache_valid_def
          fetchRealTimePricing_keeps_token)
  then have u: "snd (fetchUsageData (c_now c) (c_token c) (c_usage c) ?s1) = getFallbackUsage"
    by (rule fetchUsageData_failure)
  obtain s' sent where g: "getDashboardData c s =
       (s', sent,
        \<lparr>models = ?ms, summary = Some (calculateSummary (c_rnd c) ?ms),
         dd_exchangeRates = snd (fetchExchangeRates (c_now c) (c_rates c)
             (fst (fetchUsageData (c_now c) (c_token c) (c_usage c) ?s1))),
         dd_region = config_region (fst (fetchExchangeRates (c_now c) (c_rates c)
             (fst (fetchUsageData (c_now c) (c_token c) (c_usage c) ?s1)))),
         dd_lastUpdate = c_ts c, dd_status = ''success'', dd_error = None\<rparr>)"
      and l: "lastUpdate s' = Some (snd (snd (getDashboardData c s)))"
    using getDashboardData_no_fault [OF assms(2), of s] unfolding u by blast
  have d: "distinct (map name ?ms)"
    by (simp only: name_combineModelData pricing_names_distinct)
  have m: "map usage ?ms = map (\<lambda>pm. usage_or_zero getFallbackUsage (name pm)) ?p"
    by (rule usage_combineModelData)
  have "sum_totalCost (calculateSummary (c_rnd c) ?ms)
      = sum_list (map totalCost (map usage ?ms))"
    by (simp add: summary_totalCost comp_def)
  also have "\<dots> = sum_list (map (\<lambda>pm. totalCost (usage_or_zero getFallbackUsage (name pm))) ?p)"
    by (simp only: m map_map comp_def)
  finally have t: "sum_totalCost (calculateSummary (c_rnd c) ?ms)
      = sum_list (map (\<lambda>pm. totalCost (usage_or_zero getFallbackUsage (name pm))) ?p)" .
  have "\<exists>s' sent d sm.
           getDashboardData c s = (s', sent, d) \<and> lastUpdate s' = Some d
         \<and> dd_status d = ''success'' \<and> dd_error d = None \<and> summary d = Some sm
         \<and> distinct (map name (models d))
         \<and> map usage (models d) = map (\<lambda>pm. usage_or_zero getFallbackUsage (name pm)) ?p
         \<and> sum_totalCost sm
              = sum_list (map (\<lambda>pm. totalCost (usage_or_zero getFallbackUsage (name pm))) ?p)"
    using g l d m t by (intro exI [of _ s'] exI [of _ sent]) simp
  with a show ?thesis by (intro conjI)
qed

theorem usage_failure_falls_back_witness:
  "token_exchange_failed 1000 (NotOk 401) (new_service ''westeurope'' 0)
   \<and> (\<exists>s' sent d sm.
         getDashboardData
           \<lparr>c_now = 1000, c_ts = ''t'', c_pricing = FetchRejects, c_token = NotOk 401,
            c_usage = FetchRejects, c_rates = FetchRejects,
            c_draws = (\<lambda>j i. (''14:00'', 0, 0)), c_rnd = 0,
            c_toString = (\<lambda>x. []), c_fault = NoFault\<rparr>
           (new_service ''westeurope'' 0) = (s', sent, d)
       \<and> lastUpdate s' = Some d \<and> dd_status d = ''success'' \<and> summary d = Some sm
       \<and> sum_totalCost sm = 34.71)"
proof -
  let ?c = "\<lparr>c_now = 1000, c_ts = ''t'', c_pricing = FetchRejects, c_token = NotOk 401,
            c_usage = FetchRejects, c_rates = FetchRejects,
            c_draws = (\<lambda>j i. (''14:00'', 0 :: real, 0 :: real)), c_rnd = 0, c_toString = (\<lambda>x. []),
            c_fault = NoFault\<rparr>"
  let ?s = "new_service ''westeurope'' 0"
  have h: "token_exchange_failed 1000 (NotOk 401) ?s"
    by (simp add: token_exchange_failed_def token_cache_valid_def new_service_def)
  have h1: "token_exchange_failed (c_now ?c) (c_token ?c) ?s \<or> cost_query_failed (c_usage ?c)"
    using h by simp
  have h2: "c_fault ?c = NoFault" by simp
  have v: "sum_list (map (\<lambda>pm. totalCost (usage_or_zero getFallbackUsage (name pm)))
             (snd (fetchRealTimePricing (c_now ?c) (c_ts ?c) (c_pricing ?c) ?s))) = 34.71"
    by (simp add: fetchRealTimePricing_def fetchRealTimePricing_try_def getFallbackPricing_def
          usage_or_zero_def getFallbackUsage_def)
  have "\<exists>s' sent d sm. getDashboardData ?c ?s = (s', sent, d)
       \<and> lastUpdate s' = Some d \<and> dd_status d = ''success'' \<and> summary d = Some sm
       \<and> sum_totalCost sm = 34.71"
    using usage_failure_falls_back [OF h1 h2, THEN conjunct2] unfolding v by blast
  with h show ?thesis by (intro conjI)
qed

subsection \<open>Snapshot build\<close>



subsection \<open>Summary\<close>

lemma foldl_add2_sum_list:
  fixes a :: int
  shows "foldl (\<lambda>sum x. sum + f x + g x) a xs = a + sum_list (map (\<lambda>x. f x + g x) xs)"
  by (induction xs arbitrary: a) (simp_all add: add.assoc)

lemma summary_totalTokens:
  "sum_totalTokens (calculateSummary rnd ms)
     = sum_list (map (\<lambda>m. inputTokens (usage m) + outputTokens (usage m)) ms)"
  by (simp add: calculateSummary_def Let_def foldl_add2_sum_list)

lemma summary_totalRequests:
  "sum_totalRequests (calculateSummary rnd ms) = sum_list (map (\<lambda>m. requests (usage m)) ms)"
  by (simp add: calculateSummary_def Let_def foldl_add_sum_list)

lemma summary_avg:
  "avgCostPerRequest (calculateSummary rnd ms)
     = (if sum_totalRequests (calculateSummary rnd ms) > 0
        then sum_totalCost (calculateSummary rnd ms)
               / real_of_int (sum_totalRequests (calculateSummary rnd ms))
        else 0)"
  by (simp add: calculateSummary_def Let_def)

text \<open>The fold for \<open>topModel\<close> ends at the first element of largest cost.\<close>

lemma Max_map_Cons:
  fixes f :: "'a \<Rightarrow> real"
  shows "Max (set (map f (a # b # xs))) = max (f a) (Max (set (map f (b # xs))))"
proof -
  have "set (map f (a # b # xs)) = insert (f a) (set (map f (b # xs)))" by simp
  moreover have "finite (set (map f (b # xs)))" by simp
  moreover have "set (map f (b # xs)) \<noteq> {}" by simp
  ultimately have "Max (insert (f a) (set (map f (b # xs))))
      = max (f a) (Max (set (map f (b # xs))))"
    by (intro Max_insert)
  then show ?thesis by simp
qed

lemma Max_map_swap:
  fixes f :: "'a \<Rightarrow> real"
  shows "Max (set (map f (a # b # xs))) = Max (set (map f (b # a # xs)))"
proof -
  have "set (map f (a # b # xs)) = set (map f (b # a # xs))" by auto
  then show ?thesis by (simp only:)
qed

lemma find_skip: "\<not> P a \<Longrightarrow> find P (a # xs) = find P xs"
  by simp

lemma find_skip_second: "\<not> P b \<Longrightarrow> find P (a # b # xs) = find P (a # xs)"
  by simp

lemma foldl_first_max:
  fixes f :: "'a \<Rightarrow> real"
  shows "find (\<lambda>m. f m = Max (set (map f (best # xs)))) (best # xs)
     = Some (foldl (\<lambda>best m. if f m > f best then m else best) best xs)"
proof (induction xs arbitrary: best)
  case Nil
  show ?case by simp
next
  case (Cons x xs)
  define M where "M = Max (set (map f (best # x # xs)))"
  have ge_best: "f best \<le> Max (set (map f (best # xs)))"
    by (rule Max_ge) simp_all
  have ge_x: "f x \<le> Max (set (map f (x # xs)))"
    by (rule Max_ge) simp_all
  have step: "foldl (\<lambda>best m. if f m > f best then m else best) best (x # xs)
      = foldl (\<lambda>best m. if f m > f best then m else best) (if f x > f best then x else best) xs"
    by simp
  have "find (\<lambda>m. f m = M) (best # x # xs)
      = Some (foldl (\<lambda>best m. if f m > f best then m else best) best (x # xs))"
  proof (cases "f x > f best")
    case True
    have "M = max (f best) (Max (set (map f (x # xs))))"
      unfolding M_def by (rule Max_map_Cons)
    also have "\<dots> = Max (set (map f (x # xs)))"
      using True ge_x by (intro max_absorb2) linarith
    finally have eq: "M = Max (set (map f (x # xs)))" .
    have "\<not> f best = M" using True ge_x eq by linarith
    then have "find (\<lambda>m. f m = M) (best # x # xs) = find (\<lambda>m. f m = M) (x # xs)"
      by (rule find_skip)
    also have "\<dots> = Some (foldl (\<lambda>best m. if f m > f best then m else best) x xs)"
      unfolding eq by (rule Cons.IH)
    finally show ?thesis unfolding step using True by simp
  next
    case False
    have "M = Max (set (map f (x # best # xs)))"
      unfolding M_def by (rule Max_map_swap)
    also have "\<dots> = max (f x) (Max (set (map f (best # xs))))" by (rule Max_map_Cons)
    also have "\<dots> = Max (set (map f (best # xs)))"
      using False ge_best by (intro max_absorb2) linarith
    finally have eq: "M = Max (set (map f (best # xs)))" .
    have ih: "find (\<lambda>m. f m = M) (best # xs)
        = Some (foldl (\<lambda>best m. if f m > f best then m else best) best xs)"
      unfolding eq by (rule Cons.IH)
    have "find (\<lambda>m. f m = M) (best # x # xs) = find (\<lambda>m. f m = M) (best # xs)"
    proof (cases "f best = M")
      case True
      then show ?thesis by simp
    next
      case ne: False
      have "f best \<le> M" using ge_best eq by simp
      with ne False have "\<not> f x = M" by linarith
      then show ?thesis by (rule find_skip_second)
    qed
    with ih show ?thesis unfolding step using False by simp
  qed
  then show ?case unfolding M_def .
qed

lemma summary_topModel: "topModel (calculateSummary rnd ms) = topModel_spec ms"
proof (cases ms)
  case Nil
  then show ?thesis by (simp add: calculateSummary_def topModel_spec_def)
next
  case (Cons m0 rest)
  have "foldl (\<lambda>top model. if totalCost (usage model) > totalCost (usage top)
                 then model else top) m0 (m0 # rest)
      = foldl (\<lambda>top model. if totalCost (usage model) > totalCost (usage top)
                 then model else top) m0 rest"
    by simp
  with foldl_first_max [of "\<lambda>m. totalCost (usage m)" m0 rest] Cons
  show ?thesis by (simp add: calculateSummary_def topModel_spec_def Let_def)
qed

lemma peakHour_one_of_five:
  assumes "0 \<le> rnd" "rnd < 1"
  shows "calculatePeakHour rnd ms \<in> set [''14:00'', ''14:15'', ''14:30'', ''14:45'', ''15:00'']"
proof -
  have a: "\<lfloor>rnd * 5\<rfloor> < 5" using assms by (simp add: floor_less_iff)
  have b: "0 \<le> \<lfloor>rnd * 5\<rfloor>" using assms by simp
  have k: "nat \<lfloor>rnd * 5\<rfloor> < 5" using a b by linarith
  have len: "length [''14:00'', ''14:15'', ''14:30'', ''14:45'', ''15:00''] = 5" by simp
  have "nat \<lfloor>rnd * 5\<rfloor> < length [''14:00'', ''14:15'', ''14:30'', ''14:45'', ''15:00'']"
    using k by (simp only: len)
  then show ?thesis unfolding calculatePeakHour_def by (rule nth_mem)
qed

text \<open>
  Claim C7, as amended. For every list of model snapshots and every value \<open>rnd\<close> of
  \<open>Math.random()\<close>, \<open>calculateSummary\<close> returns: as \<open>totalCost\<close> the sum of the models'
  total costs, as \<open>totalTokens\<close> the sum of their input plus output tokens, as
  \<open>totalRequests\<close> the sum of their request counts, as \<open>avgCostPerRequest\<close> the total
  cost divided by the total of requests when that total is positive and 0 otherwise (so
  0 when it is 0), as \<open>topModel\<close> the name of the first model of largest total cost
  (nothing for the empty list), and as \<open>peakHour\<close> one of the five fixed labels
  \<open>14:00\<close> to \<open>15:00\<close>, picked by the random value alone, whatever the models are.
\<close>

theorem calculateSummary_reference:
  assumes "0 \<le> rnd" and "rnd < 1"
  shows "sum_totalCost (calculateSummary rnd ms) = sum_list (map (\<lambda>m. totalCost (usage m)) ms)
     \<and> sum_totalTokens (calculateSummary rnd ms)
          = sum_list (map (\<lambda>m. inputTokens (usage m) + outputTokens (usage m)) ms)
     \<and> sum_totalRequests (calculateSummary rnd ms) = sum_list (map (\<lambda>m. requests (usage m)) ms)
     \<and> avgCostPerRequest (calculateSummary rnd ms)
          = (if sum_totalRequests (calculateSummary rnd ms) > 0
             then sum_totalCost (calculateSummary rnd ms)
                    / real_of_int (sum_totalRequests (calculateSummary rnd ms))
             else 0)
     \<and> topModel (calculateSummary rnd ms) = topModel_spec ms
     \<and> peakHour (calculateSummary rnd ms)
          \<in> set [''14:00'', ''14:15'', ''14:30'', ''14:45'', ''15:00'']
     \<and> peakHour (calculateSummary rnd ms) = peakHour (calculateSummary rnd ms')"
proof -
  have p: "peakHour (calculateSummary rnd ms)
          \<in> set [''14:00'', ''14:15'', ''14:30'', ''14:45'', ''15:00'']"
    using peakHour_one_of_five [OF assms, of ms] by (simp add: calculateSummary_def Let_def)
  have q: "peakHour (calculateSummary rnd ms) = peakHour (calculateSummary rnd ms')"
    by (simp add: calculateSummary_def Let_def calculatePeakHour_def)
  show ?thesis
    using summary_totalCost [of rnd ms] summary_totalTokens [of rnd ms]
      summary_totalRequests [of rnd ms] summary_avg [of rnd ms] summary_topModel [of rnd ms] p q
    by (intro conjI)
qed

theorem calculateSummary_reference_witness:
  "(0 :: real) \<le> 1 / 2 \<and> (1 / 2 :: real) < 1
   \<and> sum_totalCost (calculateSummary (1 / 2)
        (combineModelData (\<lambda>x. []) (\<lambda>j i. (''09:00'', 0, 0)) (getFallbackPricing ''westeurope'' ''t'')
           getFallbackUsage)) = 34.71
   \<and> sum_totalTokens (calculateSummary (1 / 2)
        (combineModelData (\<lambda>x. []) (\<lambda>j i. (''09:00'', 0, 0)) (getFallbackPricing ''westeurope'' ''t'')
           getFallbackUsage)) = 36380000
   \<and> sum_totalRequests (calculateSummary (1 / 2)
        (combineModelData (\<lambda>x. []) (\<lambda>j i. (''09:00'', 0, 0)) (getFallbackPricing ''westeurope'' ''t'')
           getFallbackUsage)) = 47550
   \<and> topModel (calculateSummary (1 / 2)
        (combineModelData (\<lambda>x. []) (\<lambda>j i. (''09:00'', 0, 0)) (getFallbackPricing ''westeurope'' ''t'')
           getFallbackUsage)) = Some ''gpt-4o''
   \<and> peakHour (calculateSummary (1 / 2)
        (combineModelData (\<lambda>x. []) (\<lambda>j i. (''09:00'', 0, 0)) (getFallbackPricing ''westeurope'' ''t'')
           getFallbackUsage))
        \<in> set [''14:00'', ''14:15'', ''14:30'', ''14:45'', ''15:00'']"
proof -
  let ?ms = "combineModelData (\<lambda>x. []) (\<lambda>j i. (''09:00'', 0 :: real, 0 :: real))
               (getFallbackPricing ''westeurope'' ''t'') getFallbackUsage"
  have h1: "(0 :: real) \<le> 1 / 2" by simp
  have h2: "(1 / 2 :: real) < 1" by simp
  have u: "map usage ?ms = map snd getFallbackUsage"
    unfolding usage_combineModelData
    by (simp add: getFallbackPricing_def getFallbackUsage_def usage_or_zero_def)
  have n: "map name ?ms = map fst getFallbackUsage"
    unfolding name_combineModelData
    by (simp add: getFallbackPricing_def getFallbackUsage_def)
  have e1: "sum_list (map (\<lambda>m. totalCost (usage m)) ?ms) = 34.71"
  proof -
    have "sum_list (map (\<lambda>m. totalCost (usage m)) ?ms) = sum_list (map totalCost (map usage ?ms))"
      by (simp add: comp_def)
    then show ?thesis unfolding u by (simp add: getFallbackUsage_def)
  qed
  have e2: "sum_list (map (\<lambda>m. inputTokens (usage m) + outputTokens (usage m)) ?ms) = 36380000"
  proof -
    have "sum_list (map (\<lambda>m. inputTokens (usage m) + outputTokens (usage m)) ?ms)
        = sum_list (map (\<lambda>u. inputTokens u + outputTokens u) (map usage ?ms))"
      by (simp add: comp_def)
    then show ?thesis unfolding u by (simp add: getFallbackUsage_def)
  qed
  have e3: "sum_list (map (\<lambda>m. requests (usage m)) ?ms) = 47550"
  proof -
    have "sum_list (map (\<lambda>m. requests (usage m)) ?ms) = sum_list (map requests (map usage ?ms))"
      by (simp add: comp_def)
    then show ?thesis unfolding u by (simp add: getFallbackUsage_def)
  qed
  have e4: "topModel_spec ?ms = Some ''gpt-4o''"
    by (simp add: topModel_spec_def combineModelData_def getFallbackPricing_def
          enumerate_eq_zip usage_combine_one name_combine_one usage_or_zero_def
          getFallbackUsage_def upt_rec numeral_eq_Suc)
  show ?thesis
    using h1 h2 calculateSummary_reference [OF h1 h2, of ?ms ?ms] e1 e2 e3 e4
    by simp
qed

text \<open>
  The claim as stated fails for \<open>peakHour\<close>: for the three built-in models, whose
  largest-cost bucket is the one labelled \<open>08:15\<close>, the summary names \<open>14:00\<close> for one
  random value and \<open>15:00\<close> for another.
\<close>

theorem calculateSummary_peakHour_counterexample:
  "peakHour_spec
     (combineModelData (\<lambda>x. [])
        (\<lambda>j i. (if i = 4 then ''08:00'' else if i = 3 then ''08:15'' else if i = 2 then ''08:30''
                 else if i = 1 then ''08:45'' else ''09:00'',
                 if i = 3 then 9 / 10 else 0, 0))
        (getFallbackPricing ''westeurope'' ''t'') getFallbackUsage) = Some ''08:15''
   \<and> peakHour (calculateSummary 0
       (combineModelData (\<lambda>x. [])
        (\<lambda>j i. (if i = 4 then ''08:00'' else if i = 3 then ''08:15'' else if i = 2 then ''08:30''
                 else if i = 1 then ''08:45'' else ''09:00'',
                 if i = 3 then 9 / 10 else 0, 0))
        (getFallbackPricing ''westeurope'' ''t'') getFallbackUsage)) = ''14:00''
   \<and> peakHour (calculateSummary (9 / 10)
       (combineModelData (\<lambda>x. [])
        (\<lambda>j i. (if i = 4 then ''08:00'' else if i = 3 then ''08:15'' else if i = 2 then ''08:30''
                 else if i = 1 then ''08:45'' else ''09:00'',
                 if i = 3 then 9 / 10 else 0, 0))
        (getFallbackPricing ''westeurope'' ''t'') getFallbackUsage)) = ''15:00''"
proof -
  have a: "peakHour_spec
     (combineModelData (\<lambda>x. [])
        (\<lambda>j i. (if i = 4 then ''08:00'' else if i = 3 then ''08:15'' else if i = 2 then ''08:30''
                 else if i = 1 then ''08:45'' else ''09:00'',
                 if i = 3 then 9 / 10 else 0, 0))
        (getFallbackPricing ''westeurope'' ''t'') getFallbackUsage) = Some ''08:15''"
    by code_simp
  have b: "calculatePeakHour 0 ms = ''14:00''" for ms
    by (simp add: calculatePeakHour_def)
  have c: "calculatePeakHour (9 / 10) ms = ''15:00''" for ms
    by (simp add: calculatePeakHour_def)
  show ?thesis
    using a by (simp add: calculateSummary_def Let_def b c)
qed

subsection \<open>Double-precision numbers\<close>

lemma dbl_zero: "dbl 0 = 0"
  by (simp add: dbl_def)

lemma js_of_zero: "js_of 0 = Finite 0"
  by (simp add: js_of_def dbl_zero)

text \<open>The double nearest to one tenth, and the sum of doubles that is not \<open>0.3\<close>.\<close>

lemma dbl_one_tenth: "dbl (1 / 10) = 3602879701896397 / 36028797018963968"
  by code_simp

lemma dbl_sum_of_tenths: "dbl (dbl (1 / 10) + dbl (2 / 10)) \<noteq> dbl (3 / 10)"
  by code_simp

text \<open>
  The quotient \<open>1 / 0.00002\<close> of doubles lies below 50000, the product \<open>90 * 0.7\<close>
  below 63, and the percentage change from 40 to 63 below 57.5.
\<close>

lemma estimateTokensFromCost_rounds_quotient:
  "estimateTokensFromCost 1 ''gpt-4-turbo'' = 49999"
  by code_simp

lemma calculateTrend_rounds_each_operation:
  "calculateTrend ts [\<lparr>date = d1, cost = 40, tokens = t1\<rparr>, \<lparr>date = d2, cost = 63, tokens = t2\<rparr>]
     = ''+57%''"
  by code_simp

lemma parse_row_rounds_product:
  "parseUsageData_rows [(0.0000905, ''d'', ''USD'', ''gpt-3.5-turbo'', ''Cognitive Services'', 0)]
     = [(''gpt-3.5-turbo'',
         \<lparr>totalCost = 0.0000905, inputTokens = 62, outputTokens = 27, requests = 0,
          dailyData = [\<lparr>date = ''d'', cost = 0.0000905, tokens = 90\<rparr>]\<rparr>)]"
  by code_simp

subsection \<open>Trend\<close>

lemma js_of_Finite: "\<bar>dbl x\<bar> < 2 ^ 1024 \<Longrightarrow> js_of x = Finite (dbl x)"
  by (simp add: js_of_def Let_def)

lemma trend_combine_one:
  "trend (combine_one ts d U pm) = calculateTrend ts (dailyData (usage (combine_one ts d U pm)))"
  by (simp add: combine_one_def Let_def price_record.defs model_snapshot.defs)

lemma prices_combine_one:
  "inputPrice (combine_one ts d U pm) = inputPrice pm
   \<and> outputPrice (combine_one ts d U pm) = outputPrice pm"
  by (simp add: combine_one_def Let_def price_record.defs model_snapshot.defs)

lemma in_combineModelData:
  "m \<in> set (combineModelData ts dr pricing U) \<Longrightarrow> \<exists>j pm. m = combine_one ts (dr j) U pm"
  by (auto simp: combineModelData_def)

lemma calculateTrend_short: "length dd < 2 \<Longrightarrow> calculateTrend ts dd = ''+0%''"
  by (simp add: calculateTrend_def)

lemma calculateTrend_change:
  assumes "2 \<le> length dd"
  shows "calculateTrend ts dd =
     (if js_ge_zero (js_times (js_divide (js_of (cost (dd ! (length dd - 1))
                                                 - cost (dd ! (length dd - 2))))
                                         (cost (dd ! (length dd - 2)))) 100)
      then ''+'' else [])
     @ toFixed0 ts (js_times (js_divide (js_of (cost (dd ! (length dd - 1))
                                                - cost (dd ! (length dd - 2))))
                                        (cost (dd ! (length dd - 2)))) 100)
     @ ''%''"
proof -
  have r0: "drop (length dd - 2) dd ! 0 = dd ! (length dd - 2)"
    using assms by simp
  have "length dd - 2 + 1 = length dd - 1"
    using assms by simp
  then have r1: "drop (length dd - 2) dd ! 1 = dd ! (length dd - 1)"
    using assms by simp
  have n: "\<not> length dd < 2" using assms by simp
  show ?thesis
    unfolding calculateTrend_def Let_def r0 r1 using n by simp
qed

lemma calculateTrend_zero_base:
  assumes "2 \<le> length dd" and "cost (dd ! (length dd - 2)) = 0"
  shows "calculateTrend ts dd \<in> {''+Infinity%'', ''-Infinity%'', ''NaN%''}"
  unfolding calculateTrend_change [OF assms(1)] assms(2)
  by (simp add: js_of_def Let_def js_divide_def js_times_def js_ge_zero_def toFixed0_def)

lemma calculateTrend_zero_zero:
  assumes "2 \<le> length dd" and "cost (dd ! (length dd - 2)) = 0"
    and "cost (dd ! (length dd - 1)) = 0"
  shows "calculateTrend ts dd = ''NaN%''"
  unfolding calculateTrend_change [OF assms(1)] assms(2) assms(3)
  by (simp add: js_of_zero js_divide_def js_times_def js_ge_zero_def toFixed0_def)

lemma calculateTrend_percent:
  assumes "2 \<le> length dd" and "cost (dd ! (length dd - 2)) \<noteq> 0"
    and "percent_change_finite (cost (dd ! (length dd - 2))) (cost (dd ! (length dd - 1)))"
    and "\<bar>percent_change (cost (dd ! (length dd - 2))) (cost (dd ! (length dd - 1)))\<bar> < 10 ^ 21"
  shows "calculateTrend ts dd =
     (if 0 \<le> percent_change (cost (dd ! (length dd - 2))) (cost (dd ! (length dd - 1)))
      then ''+'' else ''-'')
     @ digits (nat \<lfloor>\<bar>percent_change (cost (dd ! (length dd - 2)))
                                      (cost (dd ! (length dd - 1)))\<bar> + 1 / 2\<rfloor>)
     @ ''%''"
proof -
  let ?prev = "cost (dd ! (length dd - 2))"
  let ?cur = "cost (dd ! (length dd - 1))"
  have a: "js_of (?cur - ?prev) = Finite (dbl (?cur - ?prev))"
    using assms(3) by (simp add: percent_change_finite_def js_of_Finite)
  have b: "js_divide (Finite (dbl (?cur - ?prev))) ?prev = Finite (dbl (dbl (?cur - ?prev) / ?prev))"
    using assms(2,3) by (simp add: percent_change_finite_def js_of_Finite js_divide_def)
  have c: "js_times (Finite (dbl (dbl (?cur - ?prev) / ?prev))) 100
      = Finite (percent_change ?prev ?cur)"
    using assms(3)
    by (simp add: percent_change_finite_def percent_change_def js_of_Finite js_times_def)
  show ?thesis
    unfolding calculateTrend_change [OF assms(1)] a b c
    using assms(4) by (simp add: js_ge_zero_def toFixed0_def)
qed

lemma nearest_integer:
  assumes "0 \<le> (a :: real)"
  shows "real (nat \<lfloor>a + 1 / 2\<rfloor>) \<le> a + 1 / 2 \<and> a + 1 / 2 < real (nat \<lfloor>a + 1 / 2\<rfloor>) + 1"
proof -
  have "0 \<le> \<lfloor>a + 1 / 2\<rfloor>" using assms by simp
  then have "real (nat \<lfloor>a + 1 / 2\<rfloor>) = of_int \<lfloor>a + 1 / 2\<rfloor>" by simp
  then show ?thesis by linarith
qed

lemma zero_row_usage:
  assumes "extractModelFromMeterName meter = Some key"
  shows "parseUsageData_rows [(0, d, cur, meter, ''Cognitive Services'', q)]
     = [(key, \<lparr>totalCost = 0, inputTokens = 0, outputTokens = 0, requests = 0,
               dailyData = [\<lparr>date = d, cost = 0, tokens = 0\<rparr>]\<rparr>)]"
  using assms
  by (simp add: parseUsageData_rows_def parse_row_def zero_usage_def Let_def
        estimateTokensFromCost_def dbl_zero)

lemma two_zero_rows_usage:
  assumes "extractModelFromMeterName meter = Some key"
  shows "parseUsageData_rows [(0, d, cur, meter, ''Cognitive Services'', q),
                              (0, d', cur', meter, ''Cognitive Services'', q')]
     = [(key, \<lparr>totalCost = 0, inputTokens = 0, outputTokens = 0, requests = 0,
               dailyData = [\<lparr>date = d, cost = 0, tokens = 0\<rparr>,
                            \<lparr>date = d', cost = 0, tokens = 0\<rparr>]\<rparr>)]"
  using assms
  by (simp add: parseUsageData_rows_def parse_row_def zero_usage_def Let_def
        estimateTokensFromCost_def dbl_zero)

text \<open>
  Claim C9. For a model snapshot made by \<open>combineModelData\<close> the trend is \<open>+0%\<close> when the
  daily series has fewer than two entries. When it has two or more, \<open>calculateTrend\<close>
  divides by the cost of the last but one entry without a test for zero: where that
  cost is zero the trend is no percentage but one of \<open>+Infinity%\<close>, \<open>-Infinity%\<close> and
  \<open>NaN%\<close>, and it is \<open>NaN%\<close> when the last cost is zero too. Where that cost is not zero
  and the percentage change, computed in doubles, is a double of magnitude below
  \<open>10^21\<close>, the trend is the sign \<open>+\<close> or \<open>-\<close> of the change, the decimal digits of the
  integer nearest to its magnitude (the larger one on a tie) and \<open>%\<close>. Combining a price
  record of \<open>gpt-4o\<close> that has both prices with the usage parsed from a single row of
  cost zero for \<open>gpt-4o\<close> gives one snapshot with these prices, total cost 0 and trend
  \<open>+0%\<close>; with the usage parsed from two rows of cost zero it gives one snapshot with
  total cost 0 and trend \<open>NaN%\<close>.
\<close>

theorem trend_divides_by_previous_cost:
  "(m \<in> set (combineModelData ts dr pricing U) \<longrightarrow>
      (length (dailyData (usage m)) < 2 \<longrightarrow> trend m = ''+0%'')
    \<and> (2 \<le> length (dailyData (usage m))
         \<and> cost (dailyData (usage m) ! (length (dailyData (usage m)) - 2)) = 0 \<longrightarrow>
        trend m \<in> {''+Infinity%'', ''-Infinity%'', ''NaN%''}
        \<and> (cost (dailyData (usage m) ! (length (dailyData (usage m)) - 1)) = 0 \<longrightarrow>
             trend m = ''NaN%''))
    \<and> (2 \<le> length (dailyData (usage m))
         \<and> cost (dailyData (usage m) ! (length (dailyData (usage m)) - 2)) \<noteq> 0
         \<and> percent_change_finite
              (cost (dailyData (usage m) ! (length (dailyData (usage m)) - 2)))
              (cost (dailyData (usage m) ! (length (dailyData (usage m)) - 1)))
         \<and> \<bar>percent_change
              (cost (dailyData (usage m) ! (length (dailyData (usage m)) - 2)))
              (cost (dailyData (usage m) ! (length (dailyData (usage m)) - 1)))\<bar> < 10 ^ 21 \<longrightarrow>
        (\<exists>n. trend m =
               (if 0 \<le> percent_change
                          (cost (dailyData (usage m) ! (length (dailyData (usage m)) - 2)))
                          (cost (dailyData (usage m) ! (length (dailyData (usage m)) - 1)))
                then ''+'' else ''-'') @ digits n @ ''%''
           \<and> real n \<le> \<bar>percent_change
                          (cost (dailyData (usage m) ! (length (dailyData (usage m)) - 2)))
                          (cost (dailyData (usage m) ! (length (dailyData (usage m)) - 1)))\<bar>
                        + 1 / 2
           \<and> \<bar>percent_change
                          (cost (dailyData (usage m) ! (length (dailyData (usage m)) - 2)))
                          (cost (dailyData (usage m) ! (length (dailyData (usage m)) - 1)))\<bar>
                        + 1 / 2 < real n + 1)))
   \<and> (name pm = ''gpt-4o'' \<and> inputPrice pm = Some ip \<and> outputPrice pm = Some op
        \<and> extractModelFromMeterName meter = Some ''gpt-4o'' \<longrightarrow>
       (\<exists>s. combineModelData ts dr [pm]
               (parseUsageData_rows [(0, d, cur, meter, ''Cognitive Services'', q)]) = [s]
          \<and> name s = ''gpt-4o'' \<and> inputPrice s = Some ip \<and> outputPrice s = Some op
          \<and> totalCost (usage s) = 0 \<and> trend s = ''+0%'')
       \<and> (\<exists>s. combineModelData ts dr [pm]
               (parseUsageData_rows [(0, d, cur, meter, ''Cognitive Services'', q),
                                     (0, d', cur', meter, ''Cognitive Services'', q')]) = [s]
          \<and> name s = ''gpt-4o'' \<and> inputPrice s = Some ip \<and> outputPrice s = Some op
          \<and> totalCost (usage s) = 0 \<and> trend s = ''NaN%''))"
proof -
  let ?dd = "dailyData (usage m)"
  let ?prev = "cost (?dd ! (length ?dd - 2))"
  let ?cur = "cost (?dd ! (length ?dd - 1))"
  let ?pc = "percent_change ?prev ?cur"
  have a: "m \<in> set (combineModelData ts dr pricing U) \<longrightarrow>
      (length ?dd < 2 \<longrightarrow> trend m = ''+0%'')
    \<and> (2 \<le> length ?dd \<and> ?prev = 0 \<longrightarrow>
        trend m \<in> {''+Infinity%'', ''-Infinity%'', ''NaN%''}
        \<and> (?cur = 0 \<longrightarrow> trend m = ''NaN%''))
    \<and> (2 \<le> length ?dd \<and> ?prev \<noteq> 0 \<and> percent_change_finite ?prev ?cur
         \<and> \<bar>?pc\<bar> < 10 ^ 21 \<longrightarrow>
        (\<exists>n. trend m = (if 0 \<le> ?pc then ''+'' else ''-'') @ digits n @ ''%''
           \<and> real n \<le> \<bar>?pc\<bar> + 1 / 2 \<and> \<bar>?pc\<bar> + 1 / 2 < real n + 1))"
  proof
    assume "m \<in> set (combineModelData ts dr pricing U)"
    then obtain j p where "m = combine_one ts (dr j) U p"
      using in_combineModelData by blast
    then have t: "trend m = calculateTrend ts ?dd"
      by (simp only: trend_combine_one)
    have s: "length ?dd < 2 \<longrightarrow> trend m = ''+0%''"
      unfolding t by (simp add: calculateTrend_short)
    have z: "2 \<le> length ?dd \<and> ?prev = 0 \<longrightarrow>
        trend m \<in> {''+Infinity%'', ''-Infinity%'', ''NaN%''}
        \<and> (?cur = 0 \<longrightarrow> trend m = ''NaN%'')"
      unfolding t
      using calculateTrend_zero_base [of ?dd ts] calculateTrend_zero_zero [of ?dd ts]
      by blast
    have f: "2 \<le> length ?dd \<and> ?prev \<noteq> 0 \<and> percent_change_finite ?prev ?cur
         \<and> \<bar>?pc\<bar> < 10 ^ 21 \<longrightarrow>
        (\<exists>n. trend m = (if 0 \<le> ?pc then ''+'' else ''-'') @ digits n @ ''%''
           \<and> real n \<le> \<bar>?pc\<bar> + 1 / 2 \<and> \<bar>?pc\<bar> + 1 / 2 < real n + 1)"
    proof
      assume h: "2 \<le> length ?dd \<and> ?prev \<noteq> 0 \<and> percent_change_finite ?prev ?cur
         \<and> \<bar>?pc\<bar> < 10 ^ 21"
      have e: "trend m = (if 0 \<le> ?pc then ''+'' else ''-'')
                 @ digits (nat \<lfloor>\<bar>?pc\<bar> + 1 / 2\<rfloor>) @ ''%''"
        unfolding t using h by (intro calculateTrend_percent) simp_all
      have "0 \<le> \<bar>?pc\<bar>" by simp
      then have b: "real (nat \<lfloor>\<bar>?pc\<bar> + 1 / 2\<rfloor>) \<le> \<bar>?pc\<bar> + 1 / 2
          \<and> \<bar>?pc\<bar> + 1 / 2 < real (nat \<lfloor>\<bar>?pc\<bar> + 1 / 2\<rfloor>) + 1"
        by (rule nearest_integer)
      show "\<exists>n. trend m = (if 0 \<le> ?pc then ''+'' else ''-'') @ digits n @ ''%''
           \<and> real n \<le> \<bar>?pc\<bar> + 1 / 2 \<and> \<bar>?pc\<bar> + 1 / 2 < real n + 1"
        using e b by (intro exI [of _ "nat \<lfloor>\<bar>?pc\<bar> + 1 / 2\<rfloor>"] conjI) simp_all
    qed
    show "(length ?dd < 2 \<longrightarrow> trend m = ''+0%'')
    \<and> (2 \<le> length ?dd \<and> ?prev = 0 \<longrightarrow>
        trend m \<in> {''+Infinity%'', ''-Infinity%'', ''NaN%''}
        \<and> (?cur = 0 \<longrightarrow> trend m = ''NaN%''))
    \<and> (2 \<le> length ?dd \<and> ?prev \<noteq> 0 \<and> percent_change_finite ?prev ?cur
         \<and> \<bar>?pc\<bar> < 10 ^ 21 \<longrightarrow>
        (\<exists>n. trend m = (if 0 \<le> ?pc then ''+'' else ''-'') @ digits n @ ''%''
           \<and> real n \<le> \<bar>?pc\<bar> + 1 / 2 \<and> \<bar>?pc\<bar> + 1 / 2 < real n + 1))"
      using s z f by (intro conjI)
  qed
  have b: "name pm = ''gpt-4o'' \<and> inputPrice pm = Some ip \<and> outputPrice pm = Some op
        \<and> extractModelFromMeterName meter = Some ''gpt-4o'' \<longrightarrow>
       (\<exists>s. combineModelData ts dr [pm]
               (parseUsageData_rows [(0, d, cur, meter, ''Cognitive Services'', q)]) = [s]
          \<and> name s = ''gpt-4o'' \<and> inputPrice s = Some ip \<and> outputPrice s = Some op
          \<and> totalCost (usage s) = 0 \<and> trend s = ''+0%'')
       \<and> (\<exists>s. combineModelData ts dr [pm]
               (parseUsageData_rows [(0, d, cur, meter, ''Cognitive Services'', q),
                                     (0, d', cur', meter, ''Cognitive Services'', q')]) = [s]
          \<and> name s = ''gpt-4o'' \<and> inputPrice s = Some ip \<and> outputPrice s = Some op
          \<and> totalCost (usage s) = 0 \<and> trend s = ''NaN%'')"
  proof
    assume h: "name pm = ''gpt-4o'' \<and> inputPrice pm = Some ip \<and> outputPrice pm = Some op
        \<and> extractModelFromMeterName meter = Some ''gpt-4o''"
    let ?U = "parseUsageData_rows [(0, d, cur, meter, ''Cognitive Services'', q)]"
    let ?s = "combine_one ts (dr 0) ?U pm"
    have z: "?U = [(''gpt-4o'', \<lparr>totalCost = 0, inputTokens = 0, outputTokens = 0, requests = 0,
               dailyData = [\<lparr>date = d, cost = 0, tokens = 0\<rparr>]\<rparr>)]"
      using h by (simp add: zero_row_usage)
    have u: "usage ?s = \<lparr>totalCost = 0, inputTokens = 0, outputTokens = 0, requests = 0,
               dailyData = [\<lparr>date = d, cost = 0, tokens = 0\<rparr>]\<rparr>"
      unfolding usage_combine_one z using h by (simp add: usage_or_zero_def)
    have c: "combineModelData ts dr [pm] ?U = [?s]"
      by (simp add: combineModelData_def)
    have "trend ?s = ''+0%''"
      unfolding trend_combine_one u by (simp add: calculateTrend_short)
    moreover have "totalCost (usage ?s) = 0" unfolding u by simp
    moreover have "name ?s = ''gpt-4o''" using h by (simp add: name_combine_one)
    moreover have "inputPrice ?s = Some ip \<and> outputPrice ?s = Some op"
      using h by (simp add: prices_combine_one)
    ultimately have one: "\<exists>s. combineModelData ts dr [pm] ?U = [s]
          \<and> name s = ''gpt-4o'' \<and> inputPrice s = Some ip \<and> outputPrice s = Some op
          \<and> totalCost (usage s) = 0 \<and> trend s = ''+0%''"
      using c by (intro exI [of _ ?s]) simp
    let ?V = "parseUsageData_rows [(0, d, cur, meter, ''Cognitive Services'', q),
                                   (0, d', cur', meter, ''Cognitive Services'', q')]"
    let ?r = "combine_one ts (dr 0) ?V pm"
    have z2: "?V = [(''gpt-4o'', \<lparr>totalCost = 0, inputTokens = 0, outputTokens = 0, requests = 0,
               dailyData = [\<lparr>date = d, cost = 0, tokens = 0\<rparr>,
                            \<lparr>date = d', cost = 0, tokens = 0\<rparr>]\<rparr>)]"
      using h by (simp add: two_zero_rows_usage)
    have u2: "usage ?r = \<lparr>totalCost = 0, inputTokens = 0, outputTokens = 0, requests = 0,
               dailyData = [\<lparr>date = d, cost = 0, tokens = 0\<rparr>,
                            \<lparr>date = d', cost = 0, tokens = 0\<rparr>]\<rparr>"
      unfolding usage_combine_one z2 using h by (simp add: usage_or_zero_def)
    have c2: "combineModelData ts dr [pm] ?V = [?r]"
      by (simp add: combineModelData_def)
    have "trend ?r = ''NaN%''"
      unfolding trend_combine_one u2 by (simp add: calculateTrend_zero_zero)
    moreover have "totalCost (usage ?r) = 0" unfolding u2 by simp
    moreover have "name ?r = ''gpt-4o''" using h by (simp add: name_combine_one)
    moreover have "inputPrice ?r = Some ip \<and> outputPrice ?r = Some op"
      using h by (simp add: prices_combine_one)
    ultimately have two: "\<exists>s. combineModelData ts dr [pm] ?V = [s]
          \<and> name s = ''gpt-4o'' \<and> inputPrice s = Some ip \<and> outputPrice s = Some op
          \<and> totalCost (usage s) = 0 \<and> trend s = ''NaN%''"
      using c2 by (intro exI [of _ ?r]) simp
    show "(\<exists>s. combineModelData ts dr [pm] ?U = [s]
          \<and> name s = ''gpt-4o'' \<and> inputPrice s = Some ip \<and> outputPrice s = Some op
          \<and> totalCost (usage s) = 0 \<and> trend s = ''+0%'')
       \<and> (\<exists>s. combineModelData ts dr [pm] ?V = [s]
          \<and> name s = ''gpt-4o'' \<and> inputPrice s = Some ip \<and> outputPrice s = Some op
          \<and> totalCost (usage s) = 0 \<and> trend s = ''NaN%'')"
      using one two by (intro conjI)
  qed
  show ?thesis using a b by (intro conjI)
qed

theorem trend_divides_by_previous_cost_witness:
  "combine_one (\<lambda>x. []) (\<lambda>i. (''09:00'', 0, 0))
       [(''gpt-4o'', \<lparr>totalCost = 103, inputTokens = 0, outputTokens = 0, requests = 0,
           dailyData = [\<lparr>date = ''d1'', cost = 40, tokens = 0\<rparr>,
                        \<lparr>date = ''d2'', cost = 63, tokens = 0\<rparr>]\<rparr>)]
       (hd (getFallbackPricing ''westeurope'' ''t''))
     \<in> set (combineModelData (\<lambda>x. []) (\<lambda>j i. (''09:00'', 0, 0))
              [hd (getFallbackPricing ''westeurope'' ''t'')]
              [(''gpt-4o'', \<lparr>totalCost = 103, inputTokens = 0, outputTokens = 0, requests = 0,
                  dailyData = [\<lparr>date = ''d1'', cost = 40, tokens = 0\<rparr>,
                               \<lparr>date = ''d2'', cost = 63, tokens = 0\<rparr>]\<rparr>)])
   \<and> percent_change_finite 40 63
   \<and> \<bar>percent_change 40 63\<bar> < 10 ^ 21
   \<and> trend (combine_one (\<lambda>x. []) (\<lambda>i. (''09:00'', 0, 0))
       [(''gpt-4o'', \<lparr>totalCost = 103, inputTokens = 0, outputTokens = 0, requests = 0,
           dailyData = [\<lparr>date = ''d1'', cost = 40, tokens = 0\<rparr>,
                        \<lparr>date = ''d2'', cost = 63, tokens = 0\<rparr>]\<rparr>)]
       (hd (getFallbackPricing ''westeurope'' ''t''))) = ''+57%''
   \<and> combine_one (\<lambda>x. []) (\<lambda>i. (''09:00'', 0, 0))
       [(''gpt-4o'', \<lparr>totalCost = 0, inputTokens = 0, outputTokens = 0, requests = 0,
           dailyData = [\<lparr>date = ''d1'', cost = 0, tokens = 0\<rparr>,
                        \<lparr>date = ''d2'', cost = 0, tokens = 0\<rparr>]\<rparr>)]
       (hd (getFallbackPricing ''westeurope'' ''t''))
     \<in> set (combineModelData (\<lambda>x. []) (\<lambda>j i. (''09:00'', 0, 0))
              [hd (getFallbackPricing ''westeurope'' ''t'')]
              [(''gpt-4o'', \<lparr>totalCost = 0, inputTokens = 0, outputTokens = 0, requests = 0,
                  dailyData = [\<lparr>date = ''d1'', cost = 0, tokens = 0\<rparr>,
                               \<lparr>date = ''d2'', cost = 0, tokens = 0\<rparr>]\<rparr>)])
   \<and> trend (combine_one (\<lambda>x. []) (\<lambda>i. (''09:00'', 0, 0))
       [(''gpt-4o'', \<lparr>totalCost = 0, inputTokens = 0, outputTokens = 0, requests = 0,
           dailyData = [\<lparr>date = ''d1'', cost = 0, tokens = 0\<rparr>,
                        \<lparr>date = ''d2'', cost = 0, tokens = 0\<rparr>]\<rparr>)]
       (hd (getFallbackPricing ''westeurope'' ''t''))) = ''NaN%''
   \<and> extractModelFromMeterName ''gpt-4o'' = Some ''gpt-4o''
   \<and> (\<exists>s. combineModelData (\<lambda>x. []) (\<lambda>j i. (''09:00'', 0, 0))
             [hd (getFallbackPricing ''westeurope'' ''t'')]
             (parseUsageData_rows [(0, ''d1'', ''USD'', ''gpt-4o'', ''Cognitive Services'', 0)])
           = [s]
        \<and> name s = ''gpt-4o'' \<and> inputPrice s = Some 0.0000025 \<and> outputPrice s = Some 0.00001
        \<and> totalCost (usage s) = 0 \<and> trend s = ''+0%'')
   \<and> (\<exists>s. combineModelData (\<lambda>x. []) (\<lambda>j i. (''09:00'', 0, 0))
             [hd (getFallbackPricing ''westeurope'' ''t'')]
             (parseUsageData_rows [(0, ''d1'', ''USD'', ''gpt-4o'', ''Cognitive Services'', 0),
                                   (0, ''d2'', ''USD'', ''gpt-4o'', ''Cognitive Services'', 0)])
           = [s]
        \<and> name s = ''gpt-4o'' \<and> inputPrice s = Some 0.0000025 \<and> outputPrice s = Some 0.00001
        \<and> totalCost (usage s) = 0 \<and> trend s = ''NaN%'')"
proof -
  let ?ts = "\<lambda>x :: real. [] :: string"
  let ?dr = "\<lambda>(j :: nat) (i :: nat). (''09:00'', 0 :: real, 0 :: real)"
  let ?pm = "hd (getFallbackPricing ''westeurope'' ''t'')"
  let ?dd = "[\<lparr>date = ''d1'', cost = 40, tokens = 0\<rparr>, \<lparr>date = ''d2'', cost = 63, tokens = 0\<rparr>]"
  let ?U = "[(''gpt-4o'', \<lparr>totalCost = 103, inputTokens = 0, outputTokens = 0, requests = 0,
                dailyData = ?dd\<rparr>)]"
  let ?m = "combine_one ?ts (?dr 0) ?U ?pm"
  let ?zz = "[\<lparr>date = ''d1'', cost = 0, tokens = 0\<rparr>, \<lparr>date = ''d2'', cost = 0, tokens = 0\<rparr>]"
  let ?Z = "[(''gpt-4o'', \<lparr>totalCost = 0, inputTokens = 0, outputTokens = 0, requests = 0,
                dailyData = ?zz\<rparr>)]"
  let ?z = "combine_one ?ts (?dr 0) ?Z ?pm"
  have pm: "name ?pm = ''gpt-4o'' \<and> inputPrice ?pm = Some 0.0000025
      \<and> outputPrice ?pm = Some 0.00001"
    by (simp add: getFallbackPricing_def)
  have mem: "?m \<in> set (combineModelData ?ts ?dr [?pm] ?U)"
    by (simp add: combineModelData_def)
  have dd: "dailyData (usage ?m) = ?dd"
    unfolding usage_combine_one using pm by (simp add: usage_or_zero_def)
  have pv: "percent_change 40 63 = 8092405580431359 / 140737488355328"
    by code_simp
  have fin: "percent_change_finite 40 63"
    by code_simp
  have big: "\<bar>percent_change 40 63\<bar> < 10 ^ 21"
    unfolding pv by simp
  have fx: "digits 57 = ''57''"
    by code_simp
  have "\<exists>n. trend ?m = (if 0 \<le> percent_change 40 63 then ''+'' else ''-'') @ digits n @ ''%''
           \<and> real n \<le> \<bar>percent_change 40 63\<bar> + 1 / 2
           \<and> \<bar>percent_change 40 63\<bar> + 1 / 2 < real n + 1"
    using mem fin big trend_divides_by_previous_cost
      [of ?m ?ts ?dr "[?pm]" ?U, THEN conjunct1]
    unfolding dd by simp
  then obtain n where n: "trend ?m = ''+'' @ digits n @ ''%''"
      "real n \<le> 8092405580431359 / 140737488355328 + 1 / 2"
      "8092405580431359 / 140737488355328 + 1 / 2 < real n + 1"
    unfolding pv by auto
  have "n = 57" using n(2,3) by linarith
  then have t: "trend ?m = ''+57%''"
    using n(1) fx by simp
  have memz: "?z \<in> set (combineModelData ?ts ?dr [?pm] ?Z)"
    by (simp add: combineModelData_def)
  have zz: "dailyData (usage ?z) = ?zz"
    unfolding usage_combine_one using pm by (simp add: usage_or_zero_def)
  have tz: "trend ?z = ''NaN%''"
    using memz trend_divides_by_previous_cost
      [of ?z ?ts ?dr "[?pm]" ?Z, THEN conjunct1]
    unfolding zz by simp
  have mt: "extractModelFromMeterName ''gpt-4o'' = Some ''gpt-4o''"
    by code_simp
  have sc: "(\<exists>s. combineModelData ?ts ?dr [?pm]
             (parseUsageData_rows [(0, ''d1'', ''USD'', ''gpt-4o'', ''Cognitive Services'', 0)])
           = [s]
        \<and> name s = ''gpt-4o'' \<and> inputPrice s = Some 0.0000025 \<and> outputPrice s = Some 0.00001
        \<and> totalCost (usage s) = 0 \<and> trend s = ''+0%'')
     \<and> (\<exists>s. combineModelData ?ts ?dr [?pm]
             (parseUsageData_rows [(0, ''d1'', ''USD'', ''gpt-4o'', ''Cognitive Services'', 0),
                                   (0, ''d2'', ''USD'', ''gpt-4o'', ''Cognitive Services'', 0)])
           = [s]
        \<and> name s = ''gpt-4o'' \<and> inputPrice s = Some 0.0000025 \<and> outputPrice s = Some 0.00001
        \<and> totalCost (usage s) = 0 \<and> trend s = ''NaN%'')"
    using pm mt trend_divides_by_previous_cost
      [where pm = ?pm and ip = "0.0000025" and op = "0.00001" and meter = "''gpt-4o''"
         and ts = ?ts and dr = ?dr and d = "''d1''" and cur = "''USD''" and q = 0
         and d' = "''d2''" and cur' = "''USD''" and q' = 0,
       THEN conjunct2]
    by blast
  show ?thesis using mem fin big t memz tz mt sc by (intro conjI) blast+
qed

end
